theory Spec2Isabelle
  imports Main
begin

section \<open>JavaScript strings\<close>

text \<open>
  A JavaScript string is modelled as a \<^typ>\<open>string\<close>: the list of its code units, for
  strings whose code units are all below 256. \<open>trim\<close> removes the white space of
  that range (tab, line feed, vertical tab, form feed, carriage return, space and
  the no-break space); \<open>toLowerCase\<close> acts on the letters A to Z, the only ones that
  the prefix tests of the sources can observe.
\<close>

definition isWhitespace :: "char \<Rightarrow> bool" where
  "isWhitespace c = (c \<in> set [CHR 0x09, CHR 0x0A, CHR 0x0B, CHR 0x0C, CHR 0x0D, CHR 0x20, CHR 0xA0])"

definition trim :: "string \<Rightarrow> string" where
  "trim s = rev (dropWhile isWhitespace (rev (dropWhile isWhitespace s)))"

definition isDigit :: "char \<Rightarrow> bool" where
  "isDigit c = (c \<in> set ''0123456789'')"

definition lowerChar :: "char \<Rightarrow> char" where
  "lowerChar c =
     (case map_of (zip ''ABCDEFGHIJKLMNOPQRSTUVWXYZ'' ''abcdefghijklmnopqrstuvwxyz'') c of
        Some l \<Rightarrow> l
      | None \<Rightarrow> c)"

definition toLowerCase :: "string \<Rightarrow> string" where
  "toLowerCase s = map lowerChar s"

definition startsWith :: "string \<Rightarrow> string \<Rightarrow> bool" where
  "startsWith s p = (take (length p) s = p)"

definition endsWith :: "string \<Rightarrow> string \<Rightarrow> bool" where
  "endsWith s p = (length p \<le> length s \<and> drop (length s - length p) s = p)"

text \<open>\<open>s.split(c)\<close> for a one-character separator: never the empty list.\<close>

fun splitOn :: "char \<Rightarrow> string \<Rightarrow> string list" where
  "splitOn c [] = [[]]"
| "splitOn c (x # xs) =
     (if x = c then [] # splitOn c xs
      else (case splitOn c xs of
              [] \<Rightarrow> [[x]]
            | p # ps \<Rightarrow> (x # p) # ps))"

text \<open>\<open>parts.join(sep)\<close>.\<close>

fun joinWith :: "string \<Rightarrow> string list \<Rightarrow> string" where
  "joinWith sep [] = []"
| "joinWith sep [p] = p"
| "joinWith sep (p # q # ps) = p @ sep @ joinWith sep (q # ps)"

text \<open>The test \<open>/^\d+$/\<close>: one or more decimal digits and nothing else.\<close>

definition isArrayIndexSegment :: "string \<Rightarrow> bool" where
  "isArrayIndexSegment s = (s \<noteq> [] \<and> list_all isDigit s)"

definition digitChar :: "nat \<Rightarrow> char" where
  "digitChar d = ''0123456789'' ! (d mod 10)"

text \<open>\<open>String(index)\<close> for a non-negative integer: its decimal numeral.\<close>

fun showNat :: "nat \<Rightarrow> string" where
  "showNat n = (if n < 10 then [digitChar n] else showNat (n div 10) @ [digitChar (n mod 10)])"

declare showNat.simps [simp del]

definition digitValue :: "char \<Rightarrow> nat" where
  "digitValue c = (case map_of (zip ''0123456789'' [0, 1, 2, 3, 4, 5, 6, 7, 8, 9]) c of
                     Some d \<Rightarrow> d | None \<Rightarrow> 0)"

text \<open>\<open>Number.parseInt(segment, 10)\<close> on a segment that passed \<open>/^\d+$/\<close>.\<close>

definition parseIndex :: "string \<Rightarrow> nat" where
  "parseIndex s = foldl (\<lambda>acc c. 10 * acc + digitValue c) 0 s"

section \<open>Configuration trees\<close>

text \<open>
  The untyped JSON-like value the secrets subsystem walks. \<open>JUndefined\<close> is the value
  of a missing property, of an array hole and of a read past the end of an array.
  An object is the list of its own properties in insertion order; numbers are
  carried as opaque integers, no arithmetic on them is modelled.
\<close>

datatype json =
    JUndefined
  | JNull
  | JBool bool
  | JNum int
  | JStr string
  | JArr "json list"
  | JObj "(string \<times> json) list"

text \<open>\<open>isRecord\<close> of shared.ts: an object that is neither null nor an array.\<close>

fun isRecord :: "json \<Rightarrow> bool" where
  "isRecord (JObj _) = True"
| "isRecord _ = False"

fun isArray :: "json \<Rightarrow> bool" where
  "isArray (JArr _) = True"
| "isArray _ = False"

text \<open>\<open>Object.prototype.hasOwnProperty.call(node, key)\<close> and \<open>node[key]\<close> on a record.\<close>

definition hasOwn :: "(string \<times> json) list \<Rightarrow> string \<Rightarrow> bool" where
  "hasOwn kvs k = (map_of kvs k \<noteq> None)"

definition getProp :: "(string \<times> json) list \<Rightarrow> string \<Rightarrow> json" where
  "getProp kvs k = (case map_of kvs k of None \<Rightarrow> JUndefined | Some v \<Rightarrow> v)"

text \<open>\<open>node[key] = v\<close>: an existing property keeps its place, a new one goes last.\<close>

fun setProp :: "(string \<times> json) list \<Rightarrow> string \<Rightarrow> json \<Rightarrow> (string \<times> json) list" where
  "setProp [] k v = [(k, v)]"
| "setProp ((k', v') # kvs) k v =
     (if k' = k then (k, v) # kvs else (k', v') # setProp kvs k v)"

text \<open>\<open>delete node[key]\<close>.\<close>

definition deleteProp :: "(string \<times> json) list \<Rightarrow> string \<Rightarrow> (string \<times> json) list" where
  "deleteProp kvs k = filter (\<lambda>p. fst p \<noteq> k) kvs"

text \<open>\<open>items[i]\<close>: \<open>undefined\<close> past the end.\<close>

definition arrGet :: "json list \<Rightarrow> nat \<Rightarrow> json" where
  "arrGet xs i = (if i < length xs then xs ! i else JUndefined)"

text \<open>\<open>items[i] = v\<close>: JavaScript extends the array, leaving holes before \<open>i\<close>.\<close>

definition arrSet :: "json list \<Rightarrow> nat \<Rightarrow> json \<Rightarrow> json list" where
  "arrSet xs i v =
     (if i < length xs then xs[i := v]
      else xs @ replicate (i - length xs) JUndefined @ [v])"


section \<open>Path patterns (target-registry-pattern)\<close>

datatype PathPatternToken =
    Literal string
  | Wildcard
  | ArrayToken string

datatype PatternError =
    InvalidTargetPathPattern string
  | MissingRefPathPattern string
  | MismatchedWildcardShape string

text \<open>\<open>parseDotPath\<close> and \<open>toDotPath\<close> of shared.ts.\<close>

definition parseDotPath :: "string \<Rightarrow> string list" where
  "parseDotPath pathname = filter (\<lambda>segment. length segment > 0) (map trim (splitOn CHR ''.'' pathname))"

definition toDotPath :: "string list \<Rightarrow> string" where
  "toDotPath segments = joinWith ''.'' segments"

text \<open>
  \<open>parsePathPattern\<close>: \<open>*\<close> is a wildcard, a segment ending in \<open>[]\<close> an array token
  whose field must not be blank, anything else a literal. The \<open>throw\<close> is the \<open>Inl\<close>.
\<close>

definition parsePatternSegment :: "string \<Rightarrow> string \<Rightarrow> PatternError + PathPatternToken" where
  "parsePatternSegment pathPattern segment =
     (if segment = ''*'' then Inr Wildcard
      else if endsWith segment ''[]'' then
        (let field = trim (take (length segment - 2) segment)
         in if field = [] then Inl (InvalidTargetPathPattern pathPattern)
            else Inr (ArrayToken field))
      else Inr (Literal segment))"

fun collectTokens :: "(PatternError + PathPatternToken) list \<Rightarrow> PatternError + PathPatternToken list" where
  "collectTokens [] = Inr []"
| "collectTokens (Inl e # _) = Inl e"
| "collectTokens (Inr t # rest) =
     (case collectTokens rest of Inl e \<Rightarrow> Inl e | Inr ts \<Rightarrow> Inr (t # ts))"

definition parsePathPattern :: "string \<Rightarrow> PatternError + PathPatternToken list" where
  "parsePathPattern pathPattern =
     collectTokens (map (parsePatternSegment pathPattern) (parseDotPath pathPattern))"

text \<open>
  \<open>matchPathTokens\<close>. The loop index is the number of segments already read, so the
  model passes the segments still unread: \<open>segments[index]\<close> is their head and is
  \<open>undefined\<close> when none is left; \<open>index === segments.length\<close> is the test that none
  is left. \<open>!value\<close> holds of \<open>undefined\<close> and of the empty string.
\<close>

fun matchLoop :: "string list \<Rightarrow> PathPatternToken list \<Rightarrow> string list \<Rightarrow> string list option" where
  "matchLoop segments [] captures = (if segments = [] then Some captures else None)"
| "matchLoop segments (Literal v # tokens) captures =
     (case segments of
        [] \<Rightarrow> None
      | s # rest \<Rightarrow> if s \<noteq> v then None else matchLoop rest tokens captures)"
| "matchLoop segments (Wildcard # tokens) captures =
     (case segments of
        [] \<Rightarrow> None
      | s # rest \<Rightarrow> if s = [] then None else matchLoop rest tokens (captures @ [s]))"
| "matchLoop segments (ArrayToken field # tokens) captures =
     (case segments of
        [] \<Rightarrow> None
      | s # rest \<Rightarrow>
          if s \<noteq> field then None
          else (case rest of
                  [] \<Rightarrow> None
                | next # rest' \<Rightarrow>
                    if next = [] \<or> \<not> isArrayIndexSegment next then None
                    else matchLoop rest' tokens (captures @ [next])))"

definition matchPathTokens :: "string list \<Rightarrow> PathPatternToken list \<Rightarrow> string list option" where
  "matchPathTokens segments tokens = matchLoop segments tokens []"

text \<open>
  \<open>materializePathTokens\<close>, with the captures still unread in place of
  \<open>captureIndex\<close>.
\<close>

fun materializeLoop :: "PathPatternToken list \<Rightarrow> string list \<Rightarrow> string list \<Rightarrow> string list option" where
  "materializeLoop [] captures out = (if captures = [] then Some out else None)"
| "materializeLoop (Literal v # tokens) captures out = materializeLoop tokens captures (out @ [v])"
| "materializeLoop (Wildcard # tokens) captures out =
     (case captures of
        [] \<Rightarrow> None
      | c # rest \<Rightarrow> if c = [] then None else materializeLoop tokens rest (out @ [c]))"
| "materializeLoop (ArrayToken field # tokens) captures out =
     (case captures of
        [] \<Rightarrow> None
      | c # rest \<Rightarrow>
          if c = [] \<or> \<not> isArrayIndexSegment c then None
          else materializeLoop tokens rest (out @ [field, c]))"

definition materializePathTokens :: "PathPatternToken list \<Rightarrow> string list \<Rightarrow> string list option" where
  "materializePathTokens tokens captures = materializeLoop tokens captures []"

record ExpandedPathMatch =
  segments :: "string list"
  captures :: "string list"
  matchValue :: json

definition mkMatch :: "string list \<Rightarrow> string list \<Rightarrow> json \<Rightarrow> ExpandedPathMatch" where
  "mkMatch segs caps v = \<lparr>segments = segs, captures = caps, matchValue = v\<rparr>"

text \<open>
  \<open>expandPathTokens\<close>: \<open>walk\<close> takes the tokens from \<open>tokenIndex\<close> on, so \<open>isLeaf\<close>
  is the test that no token follows the current one. The matches come out in the
  order in which \<open>walk\<close> pushes them.
\<close>

fun walk :: "json \<Rightarrow> PathPatternToken list \<Rightarrow> string list \<Rightarrow> string list \<Rightarrow> ExpandedPathMatch list" where
  "walk node [] segs caps = [mkMatch segs caps node]"
| "walk node (Literal v # tokens) segs caps =
     (case node of
        JObj kvs \<Rightarrow>
          if tokens = [] then [mkMatch (segs @ [v]) caps (getProp kvs v)]
          else if \<not> hasOwn kvs v then []
          else walk (getProp kvs v) tokens (segs @ [v]) caps
      | _ \<Rightarrow> [])"
| "walk node (Wildcard # tokens) segs caps =
     (case node of
        JObj kvs \<Rightarrow>
          concat (map (\<lambda>(key, child).
                         if tokens = [] then [mkMatch (segs @ [key]) (caps @ [key]) child]
                         else walk child tokens (segs @ [key]) (caps @ [key])) kvs)
      | _ \<Rightarrow> [])"
| "walk node (ArrayToken field # tokens) segs caps =
     (case node of
        JObj kvs \<Rightarrow>
          (case getProp kvs field of
             JArr items \<Rightarrow>
               concat (map (\<lambda>(index, item).
                              if tokens = []
                              then [mkMatch (segs @ [field, showNat index]) (caps @ [showNat index]) item]
                              else walk item tokens (segs @ [field, showNat index]) (caps @ [showNat index]))
                           (zip [0 ..< length items] items))
           | _ \<Rightarrow> [])
      | _ \<Rightarrow> [])"

definition expandPathTokens :: "json \<Rightarrow> PathPatternToken list \<Rightarrow> ExpandedPathMatch list" where
  "expandPathTokens root tokens = walk root tokens [] []"

text \<open>
  The invariant of the round trip: from any accumulator, matching the segments \<open>s\<close>
  against the tokens adds the captures \<open>c\<close>, and materialising the tokens with \<open>c\<close>
  adds the segments \<open>s\<close>.
\<close>

definition roundTrips :: "PathPatternToken list \<Rightarrow> string list \<Rightarrow> string list \<Rightarrow> bool" where
  "roundTrips tokens s c =
     ((\<forall>acc. matchLoop s tokens acc = Some (acc @ c)) \<and>
      (\<forall>out. materializeLoop tokens c out = Some (out @ s)))"

section \<open>Audit report and exit code (audit.ts)\<close>

datatype SecretsAuditCode = PLAINTEXT_FOUND | REF_UNRESOLVED | REF_SHADOWED | LEGACY_RESIDUE

datatype SecretsAuditSeverity = SeverityInfo | SeverityWarn | SeverityError

record SecretsAuditFinding =
  findingCode :: SecretsAuditCode
  severity :: SecretsAuditSeverity
  findingFile :: string
  jsonPath :: string
  findingMessage :: string
  findingProvider :: "string option"
  findingProfileId :: "string option"

datatype SecretsAuditStatus = StatusClean | StatusFindings | StatusUnresolved

record SecretsAuditSummary =
  plaintextCount :: nat
  unresolvedRefCount :: nat
  shadowedRefCount :: nat
  legacyResidueCount :: nat

record SecretsAuditReport =
  version :: nat
  status :: SecretsAuditStatus
  filesScanned :: "string list"
  summary :: SecretsAuditSummary
  findings :: "SecretsAuditFinding list"

definition summarizeFindings :: "SecretsAuditFinding list \<Rightarrow> SecretsAuditSummary" where
  "summarizeFindings fs =
     \<lparr>plaintextCount = length (filter (\<lambda>entry. findingCode entry = PLAINTEXT_FOUND) fs),
      unresolvedRefCount = length (filter (\<lambda>entry. findingCode entry = REF_UNRESOLVED) fs),
      shadowedRefCount = length (filter (\<lambda>entry. findingCode entry = REF_SHADOWED) fs),
      legacyResidueCount = length (filter (\<lambda>entry. findingCode entry = LEGACY_RESIDUE) fs)\<rparr>"

text \<open>
  The end of \<open>runSecretsAudit\<close>: the report it returns for the findings it has
  collected. \<open>sortedFiles\<close> is \<open>[...collector.filesScanned].toSorted()\<close>.
\<close>

definition auditReport :: "string list \<Rightarrow> SecretsAuditFinding list \<Rightarrow> SecretsAuditReport" where
  "auditReport sortedFiles fs =
     (let summ = summarizeFindings fs
      in \<lparr>version = 1,
          status = (if unresolvedRefCount summ > 0 then StatusUnresolved
                    else if length fs > 0 then StatusFindings
                    else StatusClean),
          filesScanned = sortedFiles,
          summary = summ,
          findings = fs\<rparr>)"

definition resolveSecretsAuditExitCode :: "SecretsAuditReport \<Rightarrow> bool \<Rightarrow> nat" where
  "resolveSecretsAuditExitCode report check =
     (if unresolvedRefCount (summary report) > 0 then 2
      else if check \<and> length (findings report) > 0 then 1
      else 0)"

section \<open>Target registry (target-registry-types.ts, target-registry-pattern.ts, target-registry-query.ts)\<close>

datatype SecretTargetConfigFile = OpenclawJson | AuthProfilesJson

datatype SecretTargetShape = SecretInput | SiblingRef

datatype SecretTargetExpected = ExpectedString | ExpectedStringOrObject

datatype AuthProfileType = ApiKeyProfile | TokenProfile

record SecretTargetRegistryEntry =
  entryId :: string
  targetType :: string
  targetTypeAliases :: "string list"
  configFile :: SecretTargetConfigFile
  pathPattern :: string
  refPathPattern :: "string option"
  secretShape :: SecretTargetShape
  expectedResolvedValue :: SecretTargetExpected
  includeInPlan :: bool
  includeInConfigure :: bool
  includeInAudit :: bool
  providerIdPathSegmentIndex :: "nat option"
  accountIdPathSegmentIndex :: "nat option"
  authProfileType :: "AuthProfileType option"
  trackProviderShadowing :: bool

record CompiledTargetRegistryEntry = SecretTargetRegistryEntry +
  pathTokens :: "PathPatternToken list"
  pathDynamicTokenCount :: nat
  refPathTokens :: "PathPatternToken list option"
  refPathDynamicTokenCount :: nat

fun isDynamicToken :: "PathPatternToken \<Rightarrow> bool" where
  "isDynamicToken (Literal _) = False"
| "isDynamicToken Wildcard = True"
| "isDynamicToken (ArrayToken _) = True"

definition countDynamicPatternTokens :: "PathPatternToken list \<Rightarrow> nat" where
  "countDynamicPatternTokens tokens = length (filter isDynamicToken tokens)"

text \<open>
  \<open>compileTargetRegistryEntry\<close>. A \<open>refPathPattern\<close> that is absent or the empty
  string is falsy and gives no ref tokens.
\<close>

definition compileTargetRegistryEntry ::
  "SecretTargetRegistryEntry \<Rightarrow> PatternError + CompiledTargetRegistryEntry" where
  "compileTargetRegistryEntry entry =
     (case parsePathPattern (pathPattern entry) of
        Inl e \<Rightarrow> Inl e
      | Inr toks \<Rightarrow>
          (case (case refPathPattern entry of
                   None \<Rightarrow> Inr None
                 | Some rp \<Rightarrow> if rp = [] then Inr None
                             else (case parsePathPattern rp of
                                     Inl e \<Rightarrow> Inl e
                                   | Inr rtoks \<Rightarrow> Inr (Some rtoks))) of
             Inl e \<Rightarrow> Inl e
           | Inr refToks \<Rightarrow>
               (let dyn = countDynamicPatternTokens toks;
                    refDyn = (case refToks of None \<Rightarrow> 0 | Some rtoks \<Rightarrow> countDynamicPatternTokens rtoks)
                in if secretShape entry = SiblingRef \<and> refToks = None
                   then Inl (MissingRefPathPattern (entryId entry))
                   else if refToks \<noteq> None \<and> refDyn \<noteq> dyn
                   then Inl (MismatchedWildcardShape (entryId entry))
                   else Inr (SecretTargetRegistryEntry.extend entry
                               \<lparr>pathTokens = toks, pathDynamicTokenCount = dyn,
                                refPathTokens = refToks, refPathDynamicTokenCount = refDyn\<rparr>))))"

text \<open>
  The registry table itself (\<open>SECRET_TARGET_REGISTRY\<close> of target-registry-data.ts)
  is not part of the sources at hand: the compiled registry is a parameter of
  every function that reads it. \<open>targetsByType\<close> is \<open>TARGETS_BY_TYPE.get\<close>: the entries
  filed under a type or under one of its aliases, in registry order.
\<close>

definition targetsByType ::
  "CompiledTargetRegistryEntry list \<Rightarrow> string \<Rightarrow> CompiledTargetRegistryEntry list" where
  "targetsByType registry ty =
     concat (map (\<lambda>entry. (if targetType entry = ty then [entry] else [])
                          @ concat (map (\<lambda>alias. if alias = ty then [entry] else [])
                                        (targetTypeAliases entry)))
                 registry)"

definition isKnownSecretTargetType :: "CompiledTargetRegistryEntry list \<Rightarrow> string option \<Rightarrow> bool" where
  "isKnownSecretTargetType registry v =
     (case v of None \<Rightarrow> False | Some ty \<Rightarrow> targetsByType registry ty \<noteq> [])"


record ResolvedPlanTarget =
  entry :: CompiledTargetRegistryEntry
  pathSegments :: "string list"
  refPathSegments :: "string list option"
  providerId :: "string option"
  accountId :: "string option"

text \<open>\<open>pathSegments[i]\<close>, kept only when truthy: present and not the empty string.\<close>

definition truthySegmentAt :: "string list \<Rightarrow> nat option \<Rightarrow> string option" where
  "truthySegmentAt segs idx =
     (case idx of
        None \<Rightarrow> None
      | Some i \<Rightarrow> if i < length segs \<and> segs ! i \<noteq> [] then Some (segs ! i) else None)"

definition toResolvedPlanTarget ::
  "CompiledTargetRegistryEntry \<Rightarrow> string list \<Rightarrow> string list \<Rightarrow> ResolvedPlanTarget option" where
  "toResolvedPlanTarget e segs caps =
     (let refSegs = (case refPathTokens e of
                       None \<Rightarrow> None
                     | Some rtoks \<Rightarrow> materializePathTokens rtoks caps)
      in if refPathTokens e \<noteq> None \<and> refSegs = None then None
         else Some \<lparr>entry = e, pathSegments = segs, refPathSegments = refSegs,
                    providerId = truthySegmentAt segs (providerIdPathSegmentIndex e),
                    accountId = truthySegmentAt segs (accountIdPathSegmentIndex e)\<rparr>)"

text \<open>\<open>value && value.trim().length > 0\<close> on an optional string.\<close>

definition suppliedNonBlank :: "string option \<Rightarrow> bool" where
  "suppliedNonBlank v = (case v of None \<Rightarrow> False | Some s \<Rightarrow> s \<noteq> [] \<and> length (trim s) > 0)"

text \<open>
  The body of the loop of \<open>resolvePlanTargetAgainstRegistry\<close> for one entry:
  \<open>None\<close> where the source says \<open>continue\<close>.
\<close>

definition tryPlanEntry ::
  "CompiledTargetRegistryEntry \<Rightarrow> string list \<Rightarrow> string option \<Rightarrow> string option
     \<Rightarrow> ResolvedPlanTarget option" where
  "tryPlanEntry e segs candProvider candAccount =
     (if \<not> includeInPlan e then None
      else (case matchPathTokens segs (pathTokens e) of
              None \<Rightarrow> None
            | Some caps \<Rightarrow>
                (case toResolvedPlanTarget e segs caps of
                   None \<Rightarrow> None
                 | Some resolved \<Rightarrow>
                     if suppliedNonBlank candProvider
                        \<and> (providerId resolved = None \<or> providerId resolved \<noteq> candProvider)
                     then None
                     else if suppliedNonBlank candAccount
                        \<and> (accountId resolved = None \<or> accountId resolved \<noteq> candAccount)
                     then None
                     else Some resolved)))"

fun firstResolved ::
  "CompiledTargetRegistryEntry list \<Rightarrow> string list \<Rightarrow> string option \<Rightarrow> string option
     \<Rightarrow> ResolvedPlanTarget option" where
  "firstResolved [] segs candProvider candAccount = None"
| "firstResolved (e # es) segs candProvider candAccount =
     (case tryPlanEntry e segs candProvider candAccount of
        Some resolved \<Rightarrow> Some resolved
      | None \<Rightarrow> firstResolved es segs candProvider candAccount)"

definition resolvePlanTargetAgainstRegistry ::
  "CompiledTargetRegistryEntry list \<Rightarrow> string \<Rightarrow> string list \<Rightarrow> string option \<Rightarrow> string option
     \<Rightarrow> ResolvedPlanTarget option" where
  "resolvePlanTargetAgainstRegistry registry ty segs candProvider candAccount =
     firstResolved (targetsByType registry ty) segs candProvider candAccount"

section \<open>Plan validation (plan.ts)\<close>

text \<open>
  A plan target at its declared type \<open>SecretsPlanTarget\<close>, every field optional as
  validation meets it. \<open>resolveValidatedPlanTarget\<close> reads the fields up to
  \<open>authProfileProvider\<close>; \<open>isSecretsApplyPlan\<close> reads \<open>ref\<close> as well.
\<close>

record SecretRefInput =
  refSource :: string
  refProvider :: string
  refId :: string

record SecretsPlanTarget =
  planType :: "string option"
  planPath :: "string option"
  planPathSegments :: "string list option"
  planAgentId :: "string option"
  planProviderId :: "string option"
  planAccountId :: "string option"
  planAuthProfileProvider :: "string option"
  planRef :: "SecretRefInput option"

definition FORBIDDEN_PATH_SEGMENTS :: "string list" where
  "FORBIDDEN_PATH_SEGMENTS = [''__proto__'', ''prototype'', ''constructor'']"

definition hasForbiddenPathSegment :: "string list \<Rightarrow> bool" where
  "hasForbiddenPathSegment segs = list_ex (\<lambda>segment. segment \<in> set FORBIDDEN_PATH_SEGMENTS) segs"

text \<open>\<open>typeof candidate.path === "string" ? candidate.path.trim() : ""\<close>.\<close>

definition trimmedPlanPath :: "SecretsPlanTarget \<Rightarrow> string" where
  "trimmedPlanPath candidate = (case planPath candidate of None \<Rightarrow> [] | Some p \<Rightarrow> trim p)"

text \<open>
  The segments validation works on: the given \<open>pathSegments\<close>, each trimmed and the
  empty ones dropped, when the array is given and not empty; otherwise the segments
  parsed from the path.
\<close>

definition planSegments :: "SecretsPlanTarget \<Rightarrow> string list" where
  "planSegments candidate =
     (case planPathSegments candidate of
        Some segs \<Rightarrow>
          if length segs > 0 then filter (\<lambda>segment. segment \<noteq> []) (map trim segs)
          else parseDotPath (trimmedPlanPath candidate)
      | None \<Rightarrow> parseDotPath (trimmedPlanPath candidate))"

definition resolveValidatedPlanTarget ::
  "CompiledTargetRegistryEntry list \<Rightarrow> SecretsPlanTarget \<Rightarrow> ResolvedPlanTarget option" where
  "resolveValidatedPlanTarget registry candidate =
     (if \<not> isKnownSecretTargetType registry (planType candidate) then None
      else
        (let path = trimmedPlanPath candidate
         in if path = [] then None
            else
              (let segs = planSegments candidate
               in if length segs = 0 \<or> hasForbiddenPathSegment segs \<or> path \<noteq> toDotPath segs
                  then None
                  else resolvePlanTargetAgainstRegistry registry (the (planType candidate)) segs
                         (planProviderId candidate) (planAccountId candidate))))"

record SecretsApplyPlan =
  planVersion :: nat
  planProtocolVersion :: nat
  planTargets :: "SecretsPlanTarget list"
  providerUpserts :: "(string \<times> json) list option"
  providerDeletes :: "string list option"

definition blankOrMissing :: "string option \<Rightarrow> bool" where
  "blankOrMissing v = (case v of None \<Rightarrow> True | Some s \<Rightarrow> length (trim s) = 0)"

text \<open>The test that \<open>isSecretsApplyPlan\<close> applies to each element of \<open>targets\<close>.\<close>

definition isValidPlanTarget :: "CompiledTargetRegistryEntry list \<Rightarrow> SecretsPlanTarget \<Rightarrow> bool" where
  "isValidPlanTarget registry candidate =
     (case resolveValidatedPlanTarget registry candidate of
        None \<Rightarrow> False
      | Some resolved \<Rightarrow>
          if \<not> isKnownSecretTargetType registry (planType candidate)
             \<or> blankOrMissing (planPath candidate)
          then False
          else (case planRef candidate of
                  None \<Rightarrow> False
                | Some r \<Rightarrow>
                    if (refSource r \<noteq> ''env'' \<and> refSource r \<noteq> ''file'' \<and> refSource r \<noteq> ''exec'')
                       \<or> length (trim (refProvider r)) = 0
                       \<or> length (trim (refId r)) = 0
                    then False
                    else if configFile (entry resolved) = AuthProfilesJson
                    then \<not> blankOrMissing (planAgentId candidate)
                         \<and> (planAuthProfileProvider candidate = None
                            \<or> \<not> blankOrMissing (planAuthProfileProvider candidate))
                    else True))"

text \<open>
  \<open>isSecretsApplyPlan\<close> on a plan at its declared type. \<open>isValidSecretProviderAlias\<close>
  (ref-contract.ts) and the provider schema behind \<open>isSecretProviderConfigShape\<close>
  (zod-schema.core.ts) are not part of the sources at hand and are parameters.
\<close>

definition isSecretsApplyPlan ::
  "CompiledTargetRegistryEntry list \<Rightarrow> (string \<Rightarrow> bool) \<Rightarrow> (json \<Rightarrow> bool) \<Rightarrow> SecretsApplyPlan \<Rightarrow> bool" where
  "isSecretsApplyPlan registry isValidSecretProviderAlias isSecretProviderConfigShape plan =
     (if planVersion plan \<noteq> 1 \<or> planProtocolVersion plan \<noteq> 1 then False
      else if \<not> list_all (isValidPlanTarget registry) (planTargets plan) then False
      else if (case providerUpserts plan of
                 None \<Rightarrow> False
               | Some upserts \<Rightarrow>
                   \<not> list_all (\<lambda>p. isValidSecretProviderAlias (fst p)
                                     \<and> isSecretProviderConfigShape (snd p)) upserts)
      then False
      else (case providerDeletes plan of
              None \<Rightarrow> True
            | Some deletes \<Rightarrow> list_all isValidSecretProviderAlias deletes))"

text \<open>
  A registry entry for the examples below: the \<open>talk.apiKey\<close> target, whose type
  and path the tests of the plan validation and of the registry use
  (type \<open>talk.apiKey\<close>, path \<open>talk.apiKey\<close>, in the main configuration file).
\<close>

definition talkApiKeyEntry :: SecretTargetRegistryEntry where
  "talkApiKeyEntry =
     \<lparr>entryId = ''talk.apiKey'', targetType = ''talk.apiKey'', targetTypeAliases = [],
      configFile = OpenclawJson, pathPattern = ''talk.apiKey'', refPathPattern = None,
      secretShape = SecretInput, expectedResolvedValue = ExpectedString,
      includeInPlan = True, includeInConfigure = True, includeInAudit = True,
      providerIdPathSegmentIndex = None, accountIdPathSegmentIndex = None,
      authProfileType = None, trackProviderShadowing = False\<rparr>"

definition talkApiKeyCompiled :: CompiledTargetRegistryEntry where
  "talkApiKeyCompiled =
     SecretTargetRegistryEntry.extend talkApiKeyEntry
       \<lparr>pathTokens = [Literal ''talk'', Literal ''apiKey''], pathDynamicTokenCount = 0,
        refPathTokens = None, refPathDynamicTokenCount = 0\<rparr>"

text \<open>
  A second one, with a provider id in its path: \<open>models.providers.*.apiKey\<close>, under
  the type \<open>models.providers.apiKey\<close> of the plan contract, the provider id being
  segment 2.
\<close>

definition modelProviderEntry :: SecretTargetRegistryEntry where
  "modelProviderEntry =
     \<lparr>entryId = ''models.providers.*.apiKey'', targetType = ''models.providers.apiKey'',
      targetTypeAliases = [],
      configFile = OpenclawJson, pathPattern = ''models.providers.*.apiKey'', refPathPattern = None,
      secretShape = SecretInput, expectedResolvedValue = ExpectedString,
      includeInPlan = True, includeInConfigure = True, includeInAudit = True,
      providerIdPathSegmentIndex = Some 2, accountIdPathSegmentIndex = None,
      authProfileType = None, trackProviderShadowing = True\<rparr>"

definition modelProviderCompiled :: CompiledTargetRegistryEntry where
  "modelProviderCompiled =
     SecretTargetRegistryEntry.extend modelProviderEntry
       \<lparr>pathTokens = [Literal ''models'', Literal ''providers'', Wildcard, Literal ''apiKey''],
        pathDynamicTokenCount = 1, refPathTokens = None, refPathDynamicTokenCount = 0\<rparr>"

text \<open>Plan targets for the examples below.\<close>

definition paddedTalkTarget :: SecretsPlanTarget where
  "paddedTalkTarget =
     \<lparr>planType = Some ''talk.apiKey'', planPath = Some ''talk.apiKey'',
      planPathSegments = Some ['' talk '', ''apiKey''], planAgentId = None, planProviderId = None,
      planAccountId = None, planAuthProfileProvider = None,
      planRef = Some \<lparr>refSource = ''env'', refProvider = ''default'', refId = ''TALK_API_KEY''\<rparr>\<rparr>"

definition openaiTarget :: "string list \<Rightarrow> SecretsPlanTarget" where
  "openaiTarget segs =
     \<lparr>planType = Some ''models.providers.apiKey'', planPath = Some (toDotPath segs),
      planPathSegments = Some segs, planAgentId = None, planProviderId = Some ''openai'',
      planAccountId = None, planAuthProfileProvider = None,
      planRef = Some \<lparr>refSource = ''env'', refProvider = ''default'', refId = ''OPENAI_API_KEY''\<rparr>\<rparr>"

section \<open>Tlon outbound session (extensions/tlon/src/outbound-session.ts)\<close>

datatype PeerKind = PeerGroup | PeerDirect

record TlonPeer =
  peerKind :: PeerKind
  peerId :: string

record ChannelOutboundSessionResolveResult =
  peer :: TlonPeer
  chatType :: PeerKind
  sessionFrom :: string
  sessionTo :: string

definition normalizeTlonShip :: "string \<Rightarrow> string" where
  "normalizeTlonShip raw =
     (let trimmed = trim raw
      in if trimmed = [] then trimmed
         else if startsWith trimmed ''~'' then trimmed else ''~'' @ trimmed)"

text \<open>\<open>s.replace(/^tlon:/i, "")\<close>: the prefix is matched whatever its case.\<close>

definition stripTlonPrefix :: "string \<Rightarrow> string" where
  "stripTlonPrefix s = (if startsWith (toLowerCase s) ''tlon:'' then drop 5 s else s)"

text \<open>\<open>s.replace(/^(group|room):/i, "")\<close>.\<close>

definition stripGroupPrefix :: "string \<Rightarrow> string" where
  "stripGroupPrefix s =
     (if startsWith (toLowerCase s) ''group:'' then drop 6 s
      else if startsWith (toLowerCase s) ''room:'' then drop 5 s
      else s)"

text \<open>\<open>s.split("/").filter(Boolean)\<close>.\<close>

definition splitSlashParts :: "string \<Rightarrow> string list" where
  "splitSlashParts s = filter (\<lambda>part. part \<noteq> []) (splitOn CHR ''/'' s)"

definition chatPeerId :: "string list \<Rightarrow> string" where
  "chatPeerId parts = ''chat/'' @ normalizeTlonShip (parts ! 0) @ ''/'' @ parts ! 1"

definition tlonResult :: "bool \<Rightarrow> string \<Rightarrow> ChannelOutboundSessionResolveResult" where
  "tlonResult isGroup pid =
     \<lparr>peer = \<lparr>peerKind = (if isGroup then PeerGroup else PeerDirect), peerId = pid\<rparr>,
      chatType = (if isGroup then PeerGroup else PeerDirect),
      sessionFrom = (if isGroup then ''tlon:group:'' @ pid else ''tlon:'' @ pid),
      sessionTo = ''tlon:'' @ pid\<rparr>"

text \<open>
  \<open>resolveTlonOutboundSession\<close> on \<open>params.target\<close>; \<open>null\<close> is \<open>None\<close>. \<open>parts ! 0\<close>
  and \<open>parts ! 1\<close> are read only where \<open>parts.length === 2\<close>.
\<close>

definition resolveTlonOutboundSession :: "string \<Rightarrow> ChannelOutboundSessionResolveResult option" where
  "resolveTlonOutboundSession target =
     (let trimmed0 = trim target
      in if trimmed0 = [] then None
         else
           (let trimmed = trim (stripTlonPrefix trimmed0)
            in if trimmed = [] then None
               else
                 (let lower = toLowerCase trimmed
                  in if startsWith lower ''group:'' \<or> startsWith lower ''room:'' then
                       (let peerId0 = trim (stripGroupPrefix trimmed);
                            parts = splitSlashParts peerId0;
                            pid = (if \<not> startsWith peerId0 ''chat/'' \<and> length parts = 2
                                   then chatPeerId parts else peerId0)
                        in Some (tlonResult True pid))
                     else if startsWith lower ''dm:'' then
                       Some (tlonResult False (normalizeTlonShip (drop 3 trimmed)))
                     else if startsWith lower ''chat/'' then
                       Some (tlonResult True trimmed)
                     else if CHR ''/'' \<in> set trimmed then
                       (let parts = splitSlashParts trimmed
                        in if length parts = 2 then Some (tlonResult True (chatPeerId parts))
                           else Some (tlonResult False trimmed))
                     else Some (tlonResult False (normalizeTlonShip trimmed)))))"

section \<open>Strict path reads and mutations (path-utils.ts)\<close>

text \<open>
  \<open>isDeepStrictEqual\<close> on configuration trees: arrays are compared element by
  element, objects by their sets of own keys and the values under each key, in
  whatever order the keys were inserted; everything else by identity of the value.
\<close>

fun isDeepStrictEqual :: "json \<Rightarrow> json \<Rightarrow> bool" where
  "isDeepStrictEqual (JArr xs) (JArr ys) = list_all2 isDeepStrictEqual xs ys"
| "isDeepStrictEqual (JObj kvs) (JObj kvs') =
     (length kvs = length kvs' \<and>
      list_all (\<lambda>p. case map_of kvs' (fst p) of
                        None \<Rightarrow> False
                      | Some w \<Rightarrow> isDeepStrictEqual (snd p) w) kvs)"
| "isDeepStrictEqual a b = (a = b)"

text \<open>
  The errors that the strict mutations throw, by kind of message:
  \<open>Target path is empty.\<close>, \<open>Invalid array index segment ...\<close>,
  \<open>Invalid path shape at ...\<close> and \<open>Path segment does not exist at ...\<close>.
\<close>

datatype PathError =
    TargetPathEmpty
  | InvalidArrayIndexSegment
  | InvalidPathShape
  | PathSegmentMissing

datatype Container = ArrayContainer | ObjectContainer

definition expectedContainer :: "string \<Rightarrow> Container" where
  "expectedContainer nextSegment =
     (if isArrayIndexSegment nextSegment then ArrayContainer else ObjectContainer)"

fun emptyContainer :: "Container \<Rightarrow> json" where
  "emptyContainer ArrayContainer = JArr []"
| "emptyContainer ObjectContainer = JObj []"

text \<open>\<open>needs === "array" ? !Array.isArray(existing) : !isRecord(existing)\<close>.\<close>

fun shapeMismatch :: "Container \<Rightarrow> json \<Rightarrow> bool" where
  "shapeMismatch ArrayContainer existing = (\<not> isArray existing)"
| "shapeMismatch ObjectContainer existing = (\<not> isRecord existing)"

text \<open>
  \<open>getPath\<close>: the loop over the segments, from the cursor. Reading a missing
  property or index gives \<open>undefined\<close>, on which the next step returns \<open>undefined\<close>.
\<close>

fun getLoop :: "json \<Rightarrow> string list \<Rightarrow> json" where
  "getLoop cursor [] = cursor"
| "getLoop cursor (segment # rest) =
     (case cursor of
        JArr xs \<Rightarrow>
          if \<not> isArrayIndexSegment segment then JUndefined
          else getLoop (arrGet xs (parseIndex segment)) rest
      | JObj kvs \<Rightarrow> getLoop (getProp kvs segment) rest
      | _ \<Rightarrow> JUndefined)"

definition getPath :: "json \<Rightarrow> string list \<Rightarrow> json" where
  "getPath root segs = (if length segs = 0 then JUndefined else getLoop root segs)"

text \<open>
  The mutations change the tree in place and either return whether it changed or
  throw. The model returns the tree after the call together with the outcome, the
  thrown error as \<open>Inl\<close>; the tree is part of the result of a throwing call too,
  since \<open>setPathCreateStrict\<close> may have created containers before it throws. The
  first argument is the cursor: the root at the call, the child in the recursion,
  which stands for the loop over the intermediate segments; the recursion is never
  entered with an empty list.
\<close>

fun markChanged :: "PathError + bool \<Rightarrow> PathError + bool" where
  "markChanged (Inl e) = Inl e"
| "markChanged (Inr _) = Inr True"

fun setPathCreateStrict :: "json \<Rightarrow> string list \<Rightarrow> json \<Rightarrow> json \<times> (PathError + bool)" where
  "setPathCreateStrict cursor [] v = (cursor, Inl TargetPathEmpty)"
| "setPathCreateStrict cursor [leaf] v =
     (case cursor of
        JArr xs \<Rightarrow>
          if \<not> isArrayIndexSegment leaf then (cursor, Inl InvalidArrayIndexSegment)
          else if \<not> isDeepStrictEqual (arrGet xs (parseIndex leaf)) v
          then (JArr (arrSet xs (parseIndex leaf) v), Inr True)
          else (cursor, Inr False)
      | JObj kvs \<Rightarrow>
          if \<not> isDeepStrictEqual (getProp kvs leaf) v
          then (JObj (setProp kvs leaf v), Inr True)
          else (cursor, Inr False)
      | _ \<Rightarrow> (cursor, Inl InvalidPathShape))"
| "setPathCreateStrict cursor (segment # nextSegment # rest) v =
     (let needs = expectedContainer nextSegment
      in case cursor of
           JArr xs \<Rightarrow>
             if \<not> isArrayIndexSegment segment then (cursor, Inl InvalidArrayIndexSegment)
             else
               (let arrayIndex = parseIndex segment; existing = arrGet xs arrayIndex
                in if existing = JUndefined \<or> existing = JNull then
                     (case setPathCreateStrict (emptyContainer needs) (nextSegment # rest) v of
                        (child, r) \<Rightarrow> (JArr (arrSet xs arrayIndex child), markChanged r))
                   else if shapeMismatch needs existing then (cursor, Inl InvalidPathShape)
                   else
                     (case setPathCreateStrict existing (nextSegment # rest) v of
                        (child, r) \<Rightarrow> (JArr (arrSet xs arrayIndex child), r)))
         | JObj kvs \<Rightarrow>
             (let existing = getProp kvs segment
              in if existing = JUndefined \<or> existing = JNull then
                   (case setPathCreateStrict (emptyContainer needs) (nextSegment # rest) v of
                      (child, r) \<Rightarrow> (JObj (setProp kvs segment child), markChanged r))
                 else if shapeMismatch needs existing then (cursor, Inl InvalidPathShape)
                 else
                   (case setPathCreateStrict existing (nextSegment # rest) v of
                      (child, r) \<Rightarrow> (JObj (setProp kvs segment child), r)))
         | _ \<Rightarrow> (cursor, Inl InvalidPathShape))"

fun setPathExistingStrict :: "json \<Rightarrow> string list \<Rightarrow> json \<Rightarrow> json \<times> (PathError + bool)" where
  "setPathExistingStrict cursor [] v = (cursor, Inl TargetPathEmpty)"
| "setPathExistingStrict cursor [leaf] v =
     (case cursor of
        JArr xs \<Rightarrow>
          if \<not> isArrayIndexSegment leaf then (cursor, Inl InvalidArrayIndexSegment)
          else if parseIndex leaf \<ge> length xs then (cursor, Inl PathSegmentMissing)
          else if \<not> isDeepStrictEqual (arrGet xs (parseIndex leaf)) v
          then (JArr (arrSet xs (parseIndex leaf) v), Inr True)
          else (cursor, Inr False)
      | JObj kvs \<Rightarrow>
          if \<not> hasOwn kvs leaf then (cursor, Inl PathSegmentMissing)
          else if \<not> isDeepStrictEqual (getProp kvs leaf) v
          then (JObj (setProp kvs leaf v), Inr True)
          else (cursor, Inr False)
      | _ \<Rightarrow> (cursor, Inl InvalidPathShape))"
| "setPathExistingStrict cursor (segment # nextSegment # rest) v =
     (case cursor of
        JArr xs \<Rightarrow>
          if \<not> isArrayIndexSegment segment then (cursor, Inl InvalidArrayIndexSegment)
          else if parseIndex segment \<ge> length xs then (cursor, Inl PathSegmentMissing)
          else
            (case setPathExistingStrict (arrGet xs (parseIndex segment)) (nextSegment # rest) v of
               (child, r) \<Rightarrow> (JArr (arrSet xs (parseIndex segment) child), r))
      | JObj kvs \<Rightarrow>
          if \<not> hasOwn kvs segment then (cursor, Inl PathSegmentMissing)
          else
            (case setPathExistingStrict (getProp kvs segment) (nextSegment # rest) v of
               (child, r) \<Rightarrow> (JObj (setProp kvs segment child), r))
      | _ \<Rightarrow> (cursor, Inl InvalidPathShape))"

text \<open>
  \<open>deletePathStrict\<close> reads the intermediate segments without testing that they
  exist: a missing one leaves \<open>undefined\<close> in the cursor, and the step after it
  throws. \<open>cursor.splice(arrayIndex, 1)\<close> removes the element and closes the gap.
\<close>

fun deletePathStrict :: "json \<Rightarrow> string list \<Rightarrow> json \<times> (PathError + bool)" where
  "deletePathStrict cursor [] = (cursor, Inl TargetPathEmpty)"
| "deletePathStrict cursor [leaf] =
     (case cursor of
        JArr xs \<Rightarrow>
          if \<not> isArrayIndexSegment leaf then (cursor, Inl InvalidArrayIndexSegment)
          else if parseIndex leaf \<ge> length xs then (cursor, Inr False)
          else (JArr (take (parseIndex leaf) xs @ drop (Suc (parseIndex leaf)) xs), Inr True)
      | JObj kvs \<Rightarrow>
          if \<not> hasOwn kvs leaf then (cursor, Inr False)
          else (JObj (deleteProp kvs leaf), Inr True)
      | _ \<Rightarrow> (cursor, Inl InvalidPathShape))"
| "deletePathStrict cursor (segment # nextSegment # rest) =
     (case cursor of
        JArr xs \<Rightarrow>
          if \<not> isArrayIndexSegment segment then (cursor, Inl InvalidArrayIndexSegment)
          else
            (case deletePathStrict (arrGet xs (parseIndex segment)) (nextSegment # rest) of
               (child, r) \<Rightarrow>
                 (if parseIndex segment < length xs
                  then JArr (arrSet xs (parseIndex segment) child) else cursor, r))
      | JObj kvs \<Rightarrow>
          (case deletePathStrict (getProp kvs segment) (nextSegment # rest) of
             (child, r) \<Rightarrow>
               (if hasOwn kvs segment then JObj (setProp kvs segment child) else cursor, r))
      | _ \<Rightarrow> (cursor, Inl InvalidPathShape))"

section \<open>Secret references (config/types.secrets.ts, ref-contract.ts, secret-value.ts)\<close>

datatype SecretSource = SourceEnv | SourceFile | SourceExec

record SecretRef =
  secretSource :: SecretSource
  secretProvider :: string
  secretId :: string

record SecretDefaults =
  defaultEnv :: "string option"
  defaultFile :: "string option"
  defaultExec :: "string option"


definition sourceOfString :: "string \<Rightarrow> SecretSource option" where
  "sourceOfString s =
     (if s = ''env'' then Some SourceEnv
      else if s = ''file'' then Some SourceFile
      else if s = ''exec'' then Some SourceExec
      else None)"

fun defaultProviderFor :: "SecretDefaults \<Rightarrow> SecretSource \<Rightarrow> string option" where
  "defaultProviderFor d SourceEnv = defaultEnv d"
| "defaultProviderFor d SourceFile = defaultFile d"
| "defaultProviderFor d SourceExec = defaultExec d"

text \<open>
  Modelled from the spec: \<open>coerceSecretRef\<close> of config/types.secrets.ts is not part
  of the sources at hand. The spec: a secret reference is
  \<open>{source \<in> {env,file,exec}, provider: alias, id: string}\<close>;
  \<open>coerceSecretRef(value, defaults)\<close> returns a ref if \<open>value\<close> matches the ref shape,
  else null, the provider being filled from the defaults when the ref omits it.
  The collectors below do not depend on this definition: they take the coercion as a
  parameter, and this one instantiates it in the examples.
\<close>

definition coerceSecretRef :: "SecretDefaults \<Rightarrow> json \<Rightarrow> SecretRef option" where
  "coerceSecretRef defaults v =
     (case v of
        JObj kvs \<Rightarrow>
          (case (getProp kvs ''source'', getProp kvs ''id'') of
             (JStr s, JStr i) \<Rightarrow>
               (case sourceOfString s of
                  None \<Rightarrow> None
                | Some src \<Rightarrow>
                    if i = [] then None
                    else (case getProp kvs ''provider'' of
                            JStr p \<Rightarrow>
                              if p = [] then None
                              else Some \<lparr>secretSource = src, secretProvider = p, secretId = i\<rparr>
                          | JUndefined \<Rightarrow>
                              (case defaultProviderFor defaults src of
                                 None \<Rightarrow> None
                               | Some p \<Rightarrow>
                                   Some \<lparr>secretSource = src, secretProvider = p, secretId = i\<rparr>)
                          | _ \<Rightarrow> None))
           | _ \<Rightarrow> None)
      | _ \<Rightarrow> None)"

text \<open>
  Modelled from the spec: \<open>hasConfiguredSecretInput\<close> of config/types.secrets.ts is
  not part of the sources at hand. The spec: it is true iff the value is a non-empty
  string or a valid ref.
\<close>

definition hasConfiguredSecretInput :: "SecretDefaults \<Rightarrow> json \<Rightarrow> bool" where
  "hasConfiguredSecretInput defaults v =
     ((case v of JStr s \<Rightarrow> s \<noteq> [] | _ \<Rightarrow> False) \<or> coerceSecretRef defaults v \<noteq> None)"

text \<open>
  Modelled from the spec: \<open>resolveSecretInputRef\<close> of config/types.secrets.ts is not
  part of the sources at hand. The spec: if \<open>refValue\<close> is a valid ref object,
  \<open>explicitRef = ref = refValue\<close>; else if \<open>value\<close> is itself a ref object,
  \<open>ref = value\<close> and \<open>explicitRef = null\<close>; else \<open>ref = null\<close>. The result is the pair
  \<open>(explicitRef, ref)\<close>; the coercion that tells what a valid ref object is, is the
  parameter \<open>coerce\<close>.
\<close>

definition resolveSecretInputRef ::
  "(json \<Rightarrow> SecretRef option) \<Rightarrow> json \<Rightarrow> json \<Rightarrow> SecretRef option \<times> SecretRef option" where
  "resolveSecretInputRef coerce v refValue =
     (case coerce refValue of
        Some r \<Rightarrow> (Some r, Some r)
      | None \<Rightarrow> (None, coerce v))"




section \<open>Resolver context (runtime-shared.ts)\<close>

datatype SecretResolverWarningCode =
    SECRETS_REF_OVERRIDES_PLAINTEXT
  | SECRETS_REF_IGNORED_INACTIVE_SURFACE

fun codeName :: "SecretResolverWarningCode \<Rightarrow> string" where
  "codeName SECRETS_REF_OVERRIDES_PLAINTEXT = ''SECRETS_REF_OVERRIDES_PLAINTEXT''"
| "codeName SECRETS_REF_IGNORED_INACTIVE_SURFACE = ''SECRETS_REF_IGNORED_INACTIVE_SURFACE''"

record SecretResolverWarning =
  warningCode :: SecretResolverWarningCode
  warningPath :: string
  warningMessage :: string

text \<open>
  An assignment. Its \<open>apply\<close> closure stores the resolved value into one property of
  an object of the resolved configuration; the model keeps the place of that
  property, as the segments from the root of the configuration, in \<open>assignTarget\<close>.
\<close>

record SecretAssignment =
  assignRef :: SecretRef
  assignPath :: string
  assignExpected :: SecretTargetExpected
  assignTarget :: "string list"

text \<open>
  The context, with the fields that the collectors write: \<open>sourceConfig\<close>, \<open>env\<close> and
  \<open>cache\<close> are read by provider resolution only.
\<close>

record ResolverContext =
  warnings :: "SecretResolverWarning list"
  warningKeys :: "string list"
  assignments :: "SecretAssignment list"

definition createResolverContext :: ResolverContext where
  "createResolverContext = \<lparr>warnings = [], warningKeys = [], assignments = []\<rparr>"

definition pushAssignment :: "ResolverContext \<Rightarrow> SecretAssignment \<Rightarrow> ResolverContext" where
  "pushAssignment context a = context\<lparr>assignments := assignments context @ [a]\<rparr>"

definition warningKeyOf :: "SecretResolverWarning \<Rightarrow> string" where
  "warningKeyOf w = codeName (warningCode w) @ '':'' @ warningPath w @ '':'' @ warningMessage w"

definition pushWarning :: "ResolverContext \<Rightarrow> SecretResolverWarning \<Rightarrow> ResolverContext" where
  "pushWarning context w =
     (if warningKeyOf w \<in> set (warningKeys context) then context
      else context\<lparr>warningKeys := warningKeys context @ [warningKeyOf w],
                   warnings := warnings context @ [w]\<rparr>)"

definition inactiveSurfaceMessage :: "string \<Rightarrow> string option \<Rightarrow> string" where
  "inactiveSurfaceMessage p details =
     (case details of
        Some d \<Rightarrow>
          if d \<noteq> [] \<and> length (trim d) > 0 then p @ '': '' @ d
          else p @ '': secret ref is configured on an inactive surface; skipping resolution until it becomes active.''
      | None \<Rightarrow>
          p @ '': secret ref is configured on an inactive surface; skipping resolution until it becomes active.'')"

definition inactiveSurfaceWarning :: "string \<Rightarrow> string option \<Rightarrow> SecretResolverWarning" where
  "inactiveSurfaceWarning p details =
     \<lparr>warningCode = SECRETS_REF_IGNORED_INACTIVE_SURFACE, warningPath = p,
      warningMessage = inactiveSurfaceMessage p details\<rparr>"

definition pushInactiveSurfaceWarning :: "ResolverContext \<Rightarrow> string \<Rightarrow> string option \<Rightarrow> ResolverContext" where
  "pushInactiveSurfaceWarning context p details = pushWarning context (inactiveSurfaceWarning p details)"

text \<open>
  \<open>collectSecretInputAssignment\<close>. \<open>active\<close> is optional in the source and only a
  literal \<open>false\<close> makes the surface inactive. \<open>coerce\<close> stands for
  \<open>(value) => coerceSecretRef(value, params.defaults)\<close>.
\<close>

definition collectSecretInputAssignment ::
  "(json \<Rightarrow> SecretRef option) \<Rightarrow> ResolverContext \<Rightarrow> json \<Rightarrow> string \<Rightarrow> SecretTargetExpected
     \<Rightarrow> bool option \<Rightarrow> string option \<Rightarrow> string list \<Rightarrow> ResolverContext" where
  "collectSecretInputAssignment coerce context v p expected active inactiveReason target =
     (case coerce v of
        None \<Rightarrow> context
      | Some r \<Rightarrow>
          if active = Some False then pushInactiveSurfaceWarning context p inactiveReason
          else pushAssignment context
                 \<lparr>assignRef = r, assignPath = p, assignExpected = expected, assignTarget = target\<rparr>)"




text \<open>\<open>isEnabledFlag\<close> and \<open>isChannelAccountEffectivelyEnabled\<close>.\<close>

definition isEnabledFlag :: "json \<Rightarrow> bool" where
  "isEnabledFlag v = (case v of JObj kvs \<Rightarrow> getProp kvs ''enabled'' \<noteq> JBool False | _ \<Rightarrow> True)"

definition isChannelAccountEffectivelyEnabled :: "json \<Rightarrow> json \<Rightarrow> bool" where
  "isChannelAccountEffectivelyEnabled channel account = (isEnabledFlag channel \<and> isEnabledFlag account)"

text \<open>\<open>typeof v === "string" ? v.trim() : ""\<close>.\<close>

definition trimmedString :: "json \<Rightarrow> string" where
  "trimmedString v = (case v of JStr s \<Rightarrow> trim s | _ \<Rightarrow> [])"

section \<open>Gateway collector (runtime-config-collectors-core.ts)\<close>

text \<open>\<open>v?.key\<close>, and \<open>v.key\<close> on a value that has no such property: \<open>undefined\<close>.\<close>

definition optionalProp :: "json \<Rightarrow> string \<Rightarrow> json" where
  "optionalProp v k = (case v of JObj kvs \<Rightarrow> getProp kvs k | _ \<Rightarrow> JUndefined)"

definition authModeReason :: string where
  "authModeReason = ''gateway.auth.mode is not '' @ [CHR 0x22] @ ''password'' @ [CHR 0x22] @ ''.''"

text \<open>
  \<open>collectGatewayAssignments\<close>. \<open>coerce\<close> stands for
  \<open>(value) => coerceSecretRef(value, params.defaults)\<close> and \<open>hasConfigured\<close> for
  \<open>(value) => hasConfiguredSecretInput(value, params.defaults)\<close>.
\<close>

definition collectGatewayAssignments ::
  "(json \<Rightarrow> SecretRef option) \<Rightarrow> (json \<Rightarrow> bool) \<Rightarrow> json \<Rightarrow> ResolverContext \<Rightarrow> ResolverContext" where
  "collectGatewayAssignments coerce hasConfigured config context =
     (case optionalProp config ''gateway'' of
        JObj gateway \<Rightarrow>
          (let context1 =
                 (case getProp gateway ''auth'' of
                    JObj auth \<Rightarrow>
                      collectSecretInputAssignment coerce context (getProp auth ''password'')
                        ''gateway.auth.password'' ExpectedString
                        (Some (getProp auth ''mode'' = JStr ''password''))
                        (Some authModeReason)
                        [''gateway'', ''auth'', ''password'']
                  | _ \<Rightarrow> context)
           in case getProp gateway ''remote'' of
                JObj remote \<Rightarrow>
                  (let localTokenConfigured =
                         hasConfigured (optionalProp (getProp gateway ''auth'') ''token'');
                       localPasswordConfigured =
                         hasConfigured (optionalProp (getProp gateway ''auth'') ''password'');
                       remoteMode = (getProp gateway ''mode'' = JStr ''remote'');
                       remoteUrlConfigured = (length (trimmedString (getProp remote ''url'')) > 0);
                       remoteEnabled = (getProp remote ''enabled'' \<noteq> JBool False);
                       remoteTokenActive =
                         (remoteEnabled \<and> (remoteMode \<or> remoteUrlConfigured \<or> \<not> localTokenConfigured));
                       remotePasswordActive =
                         (remoteEnabled \<and> (remoteMode \<or> remoteUrlConfigured \<or> \<not> localPasswordConfigured));
                       context2 =
                         collectSecretInputAssignment coerce context1 (getProp remote ''token'')
                           ''gateway.remote.token'' ExpectedString (Some remoteTokenActive)
                           (Some (if \<not> remoteEnabled then ''gateway.remote is disabled.''
                                  else ''gateway.remote.token is inactive because local gateway auth token is configured.''))
                           [''gateway'', ''remote'', ''token'']
                   in collectSecretInputAssignment coerce context2 (getProp remote ''password'')
                        ''gateway.remote.password'' ExpectedString (Some remotePasswordActive)
                        (Some (if \<not> remoteEnabled then ''gateway.remote is disabled.''
                               else ''gateway.remote.password is inactive because local gateway auth password is configured.''))
                        [''gateway'', ''remote'', ''password''])
              | _ \<Rightarrow> context1)
      | _ \<Rightarrow> context)"

text \<open>
  A configuration for the examples: the gateway runs in the given mode, a local
  auth token is configured in plaintext, and the remote token is an env ref.
\<close>

definition noDefaults :: SecretDefaults where
  "noDefaults = \<lparr>defaultEnv = None, defaultFile = None, defaultExec = None\<rparr>"

definition envRefJson :: "string \<Rightarrow> json" where
  "envRefJson name =
     JObj [(''source'', JStr ''env''), (''provider'', JStr ''default''), (''id'', JStr name)]"

definition envRef :: "string \<Rightarrow> SecretRef" where
  "envRef name = \<lparr>secretSource = SourceEnv, secretProvider = ''default'', secretId = name\<rparr>"

definition remoteSection :: "(string \<times> json) list" where
  "remoteSection = [(''token'', envRefJson ''REMOTE_TOKEN'')]"

definition gatewaySection :: "string \<Rightarrow> (string \<times> json) list" where
  "gatewaySection mode =
     [(''mode'', JStr mode),
      (''auth'', JObj [(''token'', JStr ''local-token'')]),
      (''remote'', JObj remoteSection)]"

definition gatewayConfig :: "string \<Rightarrow> json" where
  "gatewayConfig mode = JObj [(''gateway'', JObj (gatewaySection mode))]"

text \<open>
  The rule that \<open>collectGatewayAssignments\<close> computes for \<open>gateway.remote.token\<close>
  (\<open>field\<close> is \<open>token\<close>) and \<open>gateway.remote.password\<close> (\<open>field\<close> is \<open>password\<close>),
  stated on its own: the remote section is not disabled, and the gateway is in
  remote mode, or a remote url is configured, or no local auth secret of that kind
  is configured.
\<close>

definition remoteSurfaceActive ::
  "(json \<Rightarrow> bool) \<Rightarrow> (string \<times> json) list \<Rightarrow> (string \<times> json) list \<Rightarrow> string \<Rightarrow> bool" where
  "remoteSurfaceActive hasConfigured gateway remote field =
     (getProp remote ''enabled'' \<noteq> JBool False
      \<and> (getProp gateway ''mode'' = JStr ''remote''
         \<or> length (trimmedString (getProp remote ''url'')) > 0
         \<or> \<not> hasConfigured (optionalProp (getProp gateway ''auth'') field)))"

definition remoteInactiveReason :: "(string \<times> json) list \<Rightarrow> string \<Rightarrow> string" where
  "remoteInactiveReason remote field =
     (if getProp remote ''enabled'' = JBool False then ''gateway.remote is disabled.''
      else ''gateway.remote.'' @ field @ '' is inactive because local gateway auth '' @ field
           @ '' is configured.'')"

definition remoteAssignment :: "SecretRef \<Rightarrow> string \<Rightarrow> SecretAssignment" where
  "remoteAssignment r field =
     \<lparr>assignRef = r, assignPath = ''gateway.remote.'' @ field, assignExpected = ExpectedString,
      assignTarget = [''gateway'', ''remote'', field]\<rparr>"

text \<open>The first step of \<open>collectGatewayAssignments\<close>, on \<open>gateway.auth.password\<close>.\<close>

definition authStep ::
  "(json \<Rightarrow> SecretRef option) \<Rightarrow> (string \<times> json) list \<Rightarrow> ResolverContext \<Rightarrow> ResolverContext" where
  "authStep coerce gateway context =
     (case getProp gateway ''auth'' of
        JObj auth \<Rightarrow>
          collectSecretInputAssignment coerce context (getProp auth ''password'')
            ''gateway.auth.password'' ExpectedString
            (Some (getProp auth ''mode'' = JStr ''password''))
            (Some authModeReason)
            [''gateway'', ''auth'', ''password'']
      | _ \<Rightarrow> context)"

section \<open>Channel collectors (runtime-config-collectors-channels.ts)\<close>

text \<open>
  An account of a channel surface: its id, the properties of its object, and
  whether it is enabled.
\<close>

record ChannelAccountEntry =
  entryAccountId :: string
  entryAccount :: "(string \<times> json) list"
  entryEnabled :: bool

record ChannelAccountSurface =
  hasExplicitAccounts :: bool
  channelEnabled :: bool
  surfaceAccounts :: "ChannelAccountEntry list"

definition resolveChannelAccountSurface :: "(string \<times> json) list \<Rightarrow> ChannelAccountSurface" where
  "resolveChannelAccountSurface channel =
     (let enabled = isEnabledFlag (JObj channel);
          implicit = \<lparr>hasExplicitAccounts = False, channelEnabled = enabled,
                      surfaceAccounts = [\<lparr>entryAccountId = ''default'', entryAccount = channel,
                                          entryEnabled = enabled\<rparr>]\<rparr>
      in case getProp channel ''accounts'' of
           JObj accs \<Rightarrow>
             if length accs = 0 then implicit
             else \<lparr>hasExplicitAccounts = True, channelEnabled = enabled,
                   surfaceAccounts =
                     concat (map (\<lambda>(accountId, account).
                                    case account of
                                      JObj props \<Rightarrow>
                                        [\<lparr>entryAccountId = accountId, entryAccount = props,
                                          entryEnabled =
                                            isChannelAccountEffectivelyEnabled (JObj channel) account\<rparr>]
                                    | _ \<Rightarrow> [])
                                 accs)\<rparr>
         | _ \<Rightarrow> implicit)"



text \<open>
  The webhook secret part of \<open>collectTelegramAssignments\<close>, which both copies of the
  function end with.
\<close>

definition collectTelegramWebhookSecrets ::
  "(json \<Rightarrow> SecretRef option) \<Rightarrow> ResolverContext \<Rightarrow> (string \<times> json) list
     \<Rightarrow> ChannelAccountSurface \<Rightarrow> ResolverContext" where
  "collectTelegramWebhookSecrets coerce context telegram surface =
     (let baseWebhookUrl = trimmedString (getProp telegram ''webhookUrl'');
          topLevelWebhookSecretActive =
            (if \<not> channelEnabled surface then False
             else if \<not> hasExplicitAccounts surface then length baseWebhookUrl > 0
             else list_ex (\<lambda>e. entryEnabled e
                                \<and> \<not> hasOwn (entryAccount e) ''webhookSecret''
                                \<and> (if hasOwn (entryAccount e) ''webhookUrl''
                                    then length (trimmedString (getProp (entryAccount e) ''webhookUrl'')) > 0
                                    else length baseWebhookUrl > 0))
                          (surfaceAccounts surface));
          context1 =
            collectSecretInputAssignment coerce context (getProp telegram ''webhookSecret'')
              ''channels.telegram.webhookSecret'' ExpectedString (Some topLevelWebhookSecretActive)
              (Some ''no enabled Telegram webhook surface inherits this top-level webhookSecret (webhook mode is not active).'')
              [''channels'', ''telegram'', ''webhookSecret'']
      in if \<not> hasExplicitAccounts surface then context1
         else foldl (\<lambda>ctx e.
                       if \<not> hasOwn (entryAccount e) ''webhookSecret'' then ctx
                       else
                         (let accountWebhookUrl =
                                (if hasOwn (entryAccount e) ''webhookUrl''
                                 then trimmedString (getProp (entryAccount e) ''webhookUrl'')
                                 else baseWebhookUrl)
                          in collectSecretInputAssignment coerce ctx
                               (getProp (entryAccount e) ''webhookSecret'')
                               (''channels.telegram.accounts.'' @ entryAccountId e @ ''.webhookSecret'')
                               ExpectedString
                               (Some (entryEnabled e \<and> length accountWebhookUrl > 0))
                               (Some ''Telegram account is disabled or webhook mode is not active for this account.'')
                               [''channels'', ''telegram'', ''accounts'', entryAccountId e, ''webhookSecret'']))
                    context1 (surfaceAccounts surface))"


text \<open>
  The sources hold a second copy of the channel collectors (the text that follows
  target-registry-types.ts), whose \<open>collectTelegramAssignments\<close> tests \<open>tokenFile\<close>
  before it takes the bot token: \<open>collectTelegramAssignmentsTokenFile\<close> is that copy.
\<close>

definition collectTelegramAssignmentsTokenFile ::
  "(json \<Rightarrow> SecretRef option) \<Rightarrow> json \<Rightarrow> ResolverContext \<Rightarrow> ResolverContext" where
  "collectTelegramAssignmentsTokenFile coerce config context =
     (case optionalProp config ''channels'' of
        JObj channels \<Rightarrow>
          (case getProp channels ''telegram'' of
             JObj telegram \<Rightarrow>
               (let surface = resolveChannelAccountSurface telegram;
                    baseTokenFile = trimmedString (getProp telegram ''tokenFile'');
                    topLevelBotTokenActive =
                      (if \<not> channelEnabled surface then False
                       else if \<not> hasExplicitAccounts surface then length baseTokenFile = 0
                       else list_ex (\<lambda>e. entryEnabled e
                                          \<and> \<not> hasOwn (entryAccount e) ''botToken''
                                          \<and> (\<not> hasOwn (entryAccount e) ''tokenFile''
                                             \<or> \<not> (length (trimmedString (getProp (entryAccount e) ''tokenFile'')) > 0))
                                          \<and> length baseTokenFile = 0)
                                    (surfaceAccounts surface));
                    context1 =
                      collectSecretInputAssignment coerce context (getProp telegram ''botToken'')
                        ''channels.telegram.botToken'' ExpectedString (Some topLevelBotTokenActive)
                        (Some ''no enabled Telegram surface inherits this top-level botToken (tokenFile is configured).'')
                        [''channels'', ''telegram'', ''botToken''];
                    context2 =
                      (if hasExplicitAccounts surface
                       then foldl (\<lambda>ctx e.
                                     if \<not> hasOwn (entryAccount e) ''botToken'' then ctx
                                     else
                                       (let accountTokenFile =
                                              trimmedString (getProp (entryAccount e) ''tokenFile'')
                                        in collectSecretInputAssignment coerce ctx
                                             (getProp (entryAccount e) ''botToken'')
                                             (''channels.telegram.accounts.'' @ entryAccountId e @ ''.botToken'')
                                             ExpectedString
                                             (Some (entryEnabled e \<and> length accountTokenFile = 0))
                                             (Some ''Telegram account is disabled or tokenFile is configured.'')
                                             [''channels'', ''telegram'', ''accounts'', entryAccountId e, ''botToken'']))
                                  context1 (surfaceAccounts surface)
                       else context1)
                in collectTelegramWebhookSecrets coerce context2 telegram surface)
           | _ \<Rightarrow> context)
      | _ \<Rightarrow> context)"

text \<open>
  A Telegram channel for the examples: a token file is configured and the bot
  token is an env ref; and the same with the two on an account.
\<close>

definition telegramTokenFileConfig :: json where
  "telegramTokenFileConfig =
     JObj [(''channels'',
            JObj [(''telegram'',
                   JObj [(''tokenFile'', JStr ''/run/secrets/telegram-token''),
                         (''botToken'', envRefJson ''TELEGRAM_BOT_TOKEN'')])])]"

definition telegramAccountTokenFileConfig :: json where
  "telegramAccountTokenFileConfig =
     JObj [(''channels'',
            JObj [(''telegram'',
                   JObj [(''accounts'',
                          JObj [(''work'',
                                 JObj [(''tokenFile'', JStr ''/run/secrets/telegram-work''),
                                       (''botToken'', envRefJson ''TELEGRAM_WORK_TOKEN'')])])])])]"

section \<open>Google Chat collector and the snapshot it feeds\<close>






















definition targetRef :: "(json \<Rightarrow> SecretRef option) \<Rightarrow> (string \<times> json) list \<Rightarrow> SecretRef option" where
  "targetRef coerce target =
     snd (resolveSecretInputRef coerce (getProp target ''serviceAccount'')
            (getProp target ''serviceAccountRef''))"

definition plaintextOverridden :: "(json \<Rightarrow> SecretRef option) \<Rightarrow> (string \<times> json) list \<Rightarrow> bool" where
  "plaintextOverridden coerce target =
     (coerce (getProp target ''serviceAccountRef'') \<noteq> None
      \<and> getProp target ''serviceAccount'' \<noteq> JUndefined
      \<and> coerce (getProp target ''serviceAccount'') = None)"


definition accountPath :: "ChannelAccountEntry \<Rightarrow> string" where
  "accountPath e = ''channels.googlechat.accounts.'' @ entryAccountId e"



definition accountEntries :: "(string \<times> json) list \<Rightarrow> (string \<times> json) list \<Rightarrow> ChannelAccountEntry list" where
  "accountEntries channel accs =
     concat (map (\<lambda>(accountId, account).
                    case account of
                      JObj props \<Rightarrow>
                        [\<lparr>entryAccountId = accountId, entryAccount = props,
                          entryEnabled = isChannelAccountEffectivelyEnabled (JObj channel) account\<rparr>]
                    | _ \<Rightarrow> [])
                 accs)"

section \<open>Command secrets from the active snapshot (target-registry-query.ts, command-config.ts, runtime.ts)\<close>













section \<open>The secrets.resolve handler (gateway/server-methods/secrets.ts)\<close>

datatype ErrorCode = INVALID_REQUEST | UNAVAILABLE

record ErrorShape =
  errorCode :: ErrorCode
  errorMessage :: string

















section \<open>Apply: the commit step (apply.ts, shared.ts)\<close>

text \<open>
  The file system as the commit step sees it: the regular files by path name, each
  with its text and its permission bits. A call of \<open>node:fs\<close> that can throw takes
  the next entry of \<open>faults\<close>: \<open>Some e\<close> makes the call throw \<open>e\<close> and change nothing,
  \<open>None\<close> (or no entry left) lets it run. \<open>clock\<close> holds the values the coming calls of
  \<open>Date.now()\<close> return, \<open>processPid\<close> is \<open>process.pid\<close>.
\<close>

record FileNode =
  fileContent :: string
  fileMode :: nat

text \<open>A thrown value, by the text \<open>String(err)\<close> gives.\<close>

datatype Thrown = Thrown string

fun thrownText :: "Thrown \<Rightarrow> string" where
  "thrownText (Thrown s) = s"

record World =
  files :: "string \<Rightarrow> FileNode option"
  faults :: "Thrown option list"
  clock :: "nat list"
  processPid :: nat

definition nextFault :: "World \<Rightarrow> Thrown option \<times> World" where
  "nextFault w = (case faults w of [] \<Rightarrow> (None, w) | f # rest \<Rightarrow> (f, w\<lparr>faults := rest\<rparr>))"

definition dateNow :: "World \<Rightarrow> nat \<times> World" where
  "dateNow w = (case clock w of [] \<Rightarrow> (0, w) | t # rest \<Rightarrow> (t, w\<lparr>clock := rest\<rparr>))"

text \<open>A call that throws the scheduled fault, or else has its effect.\<close>

definition fsCall :: "(World \<Rightarrow> Thrown option \<times> World) \<Rightarrow> World \<Rightarrow> Thrown option \<times> World" where
  "fsCall effect w = (case nextFault w of (Some e, w') \<Rightarrow> (Some e, w') | (None, w') \<Rightarrow> effect w')"

definition enoent :: "string \<Rightarrow> Thrown" where
  "enoent p = Thrown (''Error: ENOENT: no such file or directory, '' @ p)"

text \<open>
  \<open>fs.mkdirSync(dir, {recursive: true, mode: 0o700})\<close>: the directories are not part of
  the model, the call can still throw.
\<close>

definition mkdirSync :: "string \<Rightarrow> World \<Rightarrow> Thrown option \<times> World" where
  "mkdirSync dir = fsCall (\<lambda>w. (None, w))"

text \<open>
  \<open>fs.writeFileSync(p, value, "utf8")\<close>: an existing file keeps its mode, a new one gets
  \<open>0o666\<close> (438), before the umask.
\<close>

definition writeFileSync :: "string \<Rightarrow> string \<Rightarrow> World \<Rightarrow> Thrown option \<times> World" where
  "writeFileSync p v =
     fsCall (\<lambda>w. (None,
       w\<lparr>files := (files w)(p \<mapsto>
            \<lparr>fileContent = v,
             fileMode = (case files w p of None \<Rightarrow> 438 | Some f \<Rightarrow> fileMode f)\<rparr>)\<rparr>))"

definition chmodSync :: "string \<Rightarrow> nat \<Rightarrow> World \<Rightarrow> Thrown option \<times> World" where
  "chmodSync p m =
     fsCall (\<lambda>w. case files w p of
                    None \<Rightarrow> (Some (enoent p), w)
                  | Some f \<Rightarrow> (None, w\<lparr>files := (files w)(p \<mapsto> f\<lparr>fileMode := m\<rparr>)\<rparr>))"

definition renameSync :: "string \<Rightarrow> string \<Rightarrow> World \<Rightarrow> Thrown option \<times> World" where
  "renameSync a b =
     fsCall (\<lambda>w. case files w a of
                    None \<Rightarrow> (Some (enoent a), w)
                  | Some f \<Rightarrow>
                      if a = b then (None, w)
                      else (None, w\<lparr>files := ((files w)(b \<mapsto> f))(a := None)\<rparr>))"

definition existsSync :: "string \<Rightarrow> World \<Rightarrow> bool" where
  "existsSync p w = (files w p \<noteq> None)"

text \<open>\<open>fs.rmSync(p, {force: true})\<close>: a missing file is no error.\<close>

definition rmSync :: "string \<Rightarrow> World \<Rightarrow> Thrown option \<times> World" where
  "rmSync p = fsCall (\<lambda>w. (None, w\<lparr>files := (files w)(p := None)\<rparr>))"

text \<open>\<open>fs.statSync(p).mode\<close> and \<open>fs.readFileSync(p, "utf8")\<close>.\<close>

definition statSyncMode :: "string \<Rightarrow> World \<Rightarrow> (Thrown + nat) \<times> World" where
  "statSyncMode p w =
     (case nextFault w of
        (Some e, w') \<Rightarrow> (Inl e, w')
      | (None, w') \<Rightarrow>
          (case files w' p of
             None \<Rightarrow> (Inl (enoent p), w')
           | Some f \<Rightarrow> (Inr (fileMode f), w')))"

definition readFileSync :: "string \<Rightarrow> World \<Rightarrow> (Thrown + string) \<times> World" where
  "readFileSync p w =
     (case nextFault w of
        (Some e, w') \<Rightarrow> (Inl e, w')
      | (None, w') \<Rightarrow>
          (case files w' p of
             None \<Rightarrow> (Inl (enoent p), w')
           | Some f \<Rightarrow> (Inr (fileContent f), w')))"

text \<open>\<open>path.dirname\<close>, for the path names of the model, which use \<open>/\<close>.\<close>

definition dirname :: "string \<Rightarrow> string" where
  "dirname p =
     (let parts = splitOn CHR ''/'' p
      in if length parts \<le> 1 then ''.''
         else if butlast parts = [[]] then ''/''
         else joinWith ''/'' (butlast parts))"

definition ensureDirForFile :: "string \<Rightarrow> World \<Rightarrow> Thrown option \<times> World" where
  "ensureDirForFile filePath = mkdirSync (dirname filePath)"

text \<open>\<open>`${pathname}.tmp-${process.pid}-${Date.now()}`\<close>.\<close>

definition tempPath :: "string \<Rightarrow> nat \<Rightarrow> nat \<Rightarrow> string" where
  "tempPath pathname p t = pathname @ ''.tmp-'' @ showNat p @ ''-'' @ showNat t"

text \<open>\<open>writeTextFileAtomic\<close> of shared.ts: a throwing call ends it.\<close>

definition writeTextFileAtomic :: "string \<Rightarrow> string \<Rightarrow> nat \<Rightarrow> World \<Rightarrow> Thrown option \<times> World" where
  "writeTextFileAtomic pathname v m w =
     (case ensureDirForFile pathname w of
        (Some e, w1) \<Rightarrow> (Some e, w1)
      | (None, w1) \<Rightarrow>
          (case dateNow w1 of
             (t, w2) \<Rightarrow>
               (let tmp = tempPath pathname (processPid w2) t
                in case writeFileSync tmp v w2 of
                     (Some e, w3) \<Rightarrow> (Some e, w3)
                   | (None, w3) \<Rightarrow>
                       (case chmodSync tmp m w3 of
                          (Some e, w4) \<Rightarrow> (Some e, w4)
                        | (None, w4) \<Rightarrow> renameSync tmp pathname w4))))"

record FileSnapshot =
  existed :: bool
  snapshotContent :: string
  snapshotMode :: nat

text \<open>\<open>captureFileSnapshot\<close>; \<open>stat.mode & 0o777\<close> keeps the nine permission bits.\<close>

definition captureFileSnapshot :: "string \<Rightarrow> World \<Rightarrow> (Thrown + FileSnapshot) \<times> World" where
  "captureFileSnapshot pathname w =
     (if \<not> existsSync pathname w
      then (Inr \<lparr>existed = False, snapshotContent = [], snapshotMode = 384\<rparr>, w)
      else (case statSyncMode pathname w of
              (Inl e, w1) \<Rightarrow> (Inl e, w1)
            | (Inr m, w1) \<Rightarrow>
                (case readFileSync pathname w1 of
                   (Inl e, w2) \<Rightarrow> (Inl e, w2)
                 | (Inr text, w2) \<Rightarrow>
                     (Inr \<lparr>existed = True, snapshotContent = text, snapshotMode = m mod 512\<rparr>,
                      w2))))"

text \<open>\<open>restoreFileSnapshot\<close>; \<open>snapshot.mode || 0o600\<close>.\<close>

definition restoreFileSnapshot :: "string \<Rightarrow> FileSnapshot \<Rightarrow> World \<Rightarrow> Thrown option \<times> World" where
  "restoreFileSnapshot pathname snapshot w =
     (if \<not> existed snapshot
      then (if existsSync pathname w then rmSync pathname w else (None, w))
      else writeTextFileAtomic pathname (snapshotContent snapshot)
             (if snapshotMode snapshot = 0 then 384 else snapshotMode snapshot) w)"

record ApplyWrite =
  writePath :: string
  writeContent :: string
  writeMode :: nat

text \<open>\<open>toJsonWrite\<close>; \<open>stringify\<close> stands for \<open>JSON.stringify(value, null, 2)\<close>.\<close>

definition toJsonWrite :: "(json \<Rightarrow> string) \<Rightarrow> string \<Rightarrow> json \<Rightarrow> ApplyWrite" where
  "toJsonWrite stringify pathname v =
     \<lparr>writePath = pathname, writeContent = stringify v @ [CHR 0x0A], writeMode = 384\<rparr>"

text \<open>
  \<open>ProjectedState\<close>: the maps in the order of their entries, the set of the changed
  files as a list; \<open>'o\<close> is \<open>ConfigWriteOptions\<close>.
\<close>

record 'o ProjectedState =
  nextConfig :: json
  configPath :: string
  configWriteOptions :: 'o
  authStoreByPath :: "(string \<times> json) list"
  authJsonByPath :: "(string \<times> json) list"
  envRawByPath :: "(string \<times> string) list"
  changedFiles :: "string list"
  projectedWarnings :: "string list"

datatype ApplyMode = DryRun | WriteMode

record SecretsApplyResult =
  applyMode :: ApplyMode
  changed :: bool
  resultChangedFiles :: "string list"
  warningCount :: nat
  resultWarnings :: "string list"

text \<open>
  What \<open>runSecretsApply\<close> throws: an error of the projection or of a snapshot as it
  is, a failure of the commit wrapped in a new error that has it as its cause.
\<close>

datatype ApplyError =
    Propagated Thrown
  | SecretsApplyFailed (errorMessage: string) (errorCause: Thrown)

text \<open>\<open>toSorted()\<close>: the order of the code units.\<close>

fun codeUnitsLess :: "string \<Rightarrow> string \<Rightarrow> bool" where
  "codeUnitsLess [] [] = False"
| "codeUnitsLess [] (b # bs) = True"
| "codeUnitsLess (a # as) [] = False"
| "codeUnitsLess (a # as) (b # bs) =
     ((of_char a :: nat) < of_char b \<or> (a = b \<and> codeUnitsLess as bs))"

fun insertSorted :: "string \<Rightarrow> string list \<Rightarrow> string list" where
  "insertSorted x [] = [x]"
| "insertSorted x (y # ys) = (if codeUnitsLess x y then x # y # ys else y # insertSorted x ys)"

definition toSorted :: "string list \<Rightarrow> string list" where
  "toSorted xs = foldl (\<lambda>acc x. insertSorted x acc) [] xs"

text \<open>
  The loop of \<open>capture\<close> over the files to write: a path that has a snapshot is not read
  again; the snapshots keep the order of their insertion.
\<close>

fun captureAll ::
  "string list \<Rightarrow> (string \<times> FileSnapshot) list \<Rightarrow> World
     \<Rightarrow> (Thrown + (string \<times> FileSnapshot) list) \<times> World" where
  "captureAll [] snapshots w = (Inr snapshots, w)"
| "captureAll (p # ps) snapshots w =
     (if map_of snapshots p \<noteq> None then captureAll ps snapshots w
      else (case captureFileSnapshot p w of
              (Inl e, w1) \<Rightarrow> (Inl e, w1)
            | (Inr s, w1) \<Rightarrow> captureAll ps (snapshots @ [(p, s)]) w1))"

definition snapshotPaths :: "'o ProjectedState \<Rightarrow> string list" where
  "snapshotPaths projected =
     configPath projected # map fst (authStoreByPath projected)
       @ map fst (authJsonByPath projected) @ map fst (envRawByPath projected)"

definition applyWrites :: "(json \<Rightarrow> string) \<Rightarrow> 'o ProjectedState \<Rightarrow> ApplyWrite list" where
  "applyWrites stringify projected =
     map (\<lambda>(p, v). toJsonWrite stringify p v) (authStoreByPath projected)
     @ map (\<lambda>(p, v). toJsonWrite stringify p v) (authJsonByPath projected)
     @ map (\<lambda>(p, raw). \<lparr>writePath = p, writeContent = raw, writeMode = 384\<rparr>)
         (envRawByPath projected)"

fun writeAll :: "ApplyWrite list \<Rightarrow> World \<Rightarrow> Thrown option \<times> World" where
  "writeAll [] w = (None, w)"
| "writeAll (x # xs) w =
     (case writeTextFileAtomic (writePath x) (writeContent x) (writeMode x) w of
        (Some e, w1) \<Rightarrow> (Some e, w1)
      | (None, w1) \<Rightarrow> writeAll xs w1)"

text \<open>
  The body of the \<open>try\<close>. \<open>writeConfigFile\<close> stands for \<open>io.writeConfigFile\<close> of
  config-io.ts, which is not part of the sources at hand: any function that may throw
  and may change the world.
\<close>

definition commitWrites ::
  "(json \<Rightarrow> 'o \<Rightarrow> World \<Rightarrow> Thrown option \<times> World) \<Rightarrow> (json \<Rightarrow> string)
     \<Rightarrow> 'o ProjectedState \<Rightarrow> World \<Rightarrow> Thrown option \<times> World" where
  "commitWrites writeConfigFile stringify projected w =
     (case writeConfigFile (nextConfig projected) (configWriteOptions projected) w of
        (Some e, w1) \<Rightarrow> (Some e, w1)
      | (None, w1) \<Rightarrow> writeAll (applyWrites stringify projected) w1)"

text \<open>The loop of the \<open>catch\<close>: what a restore throws is dropped.\<close>

fun restoreAll :: "(string \<times> FileSnapshot) list \<Rightarrow> World \<Rightarrow> World" where
  "restoreAll [] w = w"
| "restoreAll ((p, s) # rest) w = restoreAll rest (snd (restoreFileSnapshot p s w))"

definition applyResult :: "ApplyMode \<Rightarrow> string list \<Rightarrow> 'o ProjectedState \<Rightarrow> SecretsApplyResult" where
  "applyResult m changedList projected =
     \<lparr>applyMode = m, changed = (length changedList > 0), resultChangedFiles = changedList,
      warningCount = length (projectedWarnings projected),
      resultWarnings = projectedWarnings projected\<rparr>"

text \<open>
  \<open>runSecretsApply\<close>. \<open>projectPlanState\<close> is the projection of the plan over the files
  as they are: it reads, and holds what it would write in the projected state, so
  it is a function of the world that returns no new world; apply.ts writes in the
  commit step only.
\<close>

definition runSecretsApply ::
  "(json \<Rightarrow> 'o \<Rightarrow> World \<Rightarrow> Thrown option \<times> World) \<Rightarrow> (json \<Rightarrow> string)
     \<Rightarrow> (World \<Rightarrow> Thrown + 'o ProjectedState) \<Rightarrow> bool \<Rightarrow> World
     \<Rightarrow> (ApplyError + SecretsApplyResult) \<times> World" where
  "runSecretsApply writeConfigFile stringify projectPlanState writeFlag w =
     (case projectPlanState w of
        Inl e \<Rightarrow> (Inl (Propagated e), w)
      | Inr projected \<Rightarrow>
          (let changedList = toSorted (changedFiles projected)
           in if \<not> writeFlag then (Inr (applyResult DryRun changedList projected), w)
              else if length changedList = 0
              then (Inr ((applyResult WriteMode changedList projected)
                           \<lparr>changed := False, resultChangedFiles := []\<rparr>), w)
              else (case captureAll (snapshotPaths projected) [] w of
                      (Inl e, w1) \<Rightarrow> (Inl (Propagated e), w1)
                    | (Inr snapshots, w1) \<Rightarrow>
                        (case commitWrites writeConfigFile stringify projected w1 of
                           (Some err, w2) \<Rightarrow>
                             (Inl (SecretsApplyFailed
                                     (''Secrets apply failed: '' @ thrownText err) err),
                              restoreAll snapshots w2)
                         | (None, w2) \<Rightarrow>
                             (Inr (applyResult WriteMode changedList projected), w2)))))"

text \<open>
  For the statements: no fault is scheduled any more; a snapshot agrees with the
  files; no path of the list has the form of a temporary file of a path of the list.
\<close>

definition noFurtherFault :: "World \<Rightarrow> bool" where
  "noFurtherFault w = list_all (\<lambda>f. f = None) (faults w)"

definition snapshotOf :: "(string \<Rightarrow> FileNode option) \<Rightarrow> string \<Rightarrow> FileSnapshot \<Rightarrow> bool" where
  "snapshotOf fs p s =
     (case fs p of
        None \<Rightarrow> \<not> existed s
      | Some f \<Rightarrow> existed s \<and> snapshotContent s = fileContent f)"

definition noTempClash :: "string list \<Rightarrow> bool" where
  "noTempClash ps = list_all (\<lambda>p. list_all (\<lambda>q. \<not> startsWith q (p @ ''.tmp-'')) ps) ps"

text \<open>
  An example. The writer of the configuration file stands for the one of
  config-io.ts: it writes the text of the configuration to the path of the file.
\<close>

definition exampleWriteConfigFile :: "json \<Rightarrow> unit \<Rightarrow> World \<Rightarrow> Thrown option \<times> World" where
  "exampleWriteConfigFile cfg opts = writeFileSync ''/home/u/.openclaw/openclaw.json'' ''{new}''"

definition exampleStringify :: "json \<Rightarrow> string" where
  "exampleStringify v = ''{}''"

definition exampleProjected :: "unit ProjectedState" where
  "exampleProjected =
     \<lparr>nextConfig = JObj [], configPath = ''/home/u/.openclaw/openclaw.json'',
      configWriteOptions = (),
      authStoreByPath = [(''/home/u/.openclaw/agents/main/auth-profiles.json'', JObj [])],
      authJsonByPath = [],
      envRawByPath = [(''/home/u/.openclaw/.env'', ''B=2'')],
      changedFiles = [''/home/u/.openclaw/openclaw.json'', ''/home/u/.openclaw/.env'',
                      ''/home/u/.openclaw/agents/main/auth-profiles.json''],
      projectedWarnings = []\<rparr>"

text \<open>
  The configuration and the env file exist, the auth-profile store does not. The
  eleventh call fails: the write of the temporary file of the env file, after the
  configuration and the store have been written.
\<close>

definition exampleFiles :: "string \<Rightarrow> FileNode option" where
  "exampleFiles =
     [''/home/u/.openclaw/openclaw.json'' \<mapsto> \<lparr>fileContent = ''{old}'', fileMode = 384\<rparr>,
      ''/home/u/.openclaw/.env'' \<mapsto> \<lparr>fileContent = ''A=1'', fileMode = 420\<rparr>]"

definition exampleSnapshots :: "(string \<times> FileSnapshot) list" where
  "exampleSnapshots =
     [(''/home/u/.openclaw/openclaw.json'',
       \<lparr>existed = True, snapshotContent = ''{old}'', snapshotMode = 384\<rparr>),
      (''/home/u/.openclaw/agents/main/auth-profiles.json'',
       \<lparr>existed = False, snapshotContent = [], snapshotMode = 384\<rparr>),
      (''/home/u/.openclaw/.env'',
       \<lparr>existed = True, snapshotContent = ''A=1'', snapshotMode = 420\<rparr>)]"

definition exampleWorld :: World where
  "exampleWorld =
     \<lparr>files = exampleFiles,
      faults = [None, None, None, None, None, None, None, None, None, None,
                Some (Thrown ''Error: ENOSPC: no space left on device, write'')],
      clock = [1700000000000, 1700000000001, 1700000000002],
      processPid = 4242\<rparr>"


section \<open>Round trip of expansion, matching and materialisation\<close>

lemma digitChar_isDigit: "isDigit (digitChar d)"
proof -
  have "d mod 10 < 10" by simp
  then have "d mod 10 = 0 \<or> d mod 10 = 1 \<or> d mod 10 = 2 \<or> d mod 10 = 3 \<or> d mod 10 = 4 \<or>
             d mod 10 = 5 \<or> d mod 10 = 6 \<or> d mod 10 = 7 \<or> d mod 10 = 8 \<or> d mod 10 = 9"
    by arith
  then show ?thesis
    unfolding isDigit_def digitChar_def by (elim disjE) simp_all
qed

lemma showNat_digits: "showNat n \<noteq> [] \<and> list_all isDigit (showNat n)"
proof (induction n rule: showNat.induct)
  case (1 n)
  show ?case
  proof (cases "n < 10")
    case True
    then show ?thesis
      by (subst showNat.simps, subst showNat.simps) (simp add: digitChar_isDigit)
  next
    case False
    with 1 show ?thesis
      by (subst showNat.simps, subst showNat.simps) (simp add: digitChar_isDigit)
  qed
qed

lemma showNat_index: "isArrayIndexSegment (showNat n)"
  by (simp add: isArrayIndexSegment_def showNat_digits)

lemma roundTrips_Nil: "roundTrips [] [] []"
  by (simp add: roundTrips_def)

lemma roundTrips_Literal: "roundTrips tokens s c \<Longrightarrow> roundTrips (Literal v # tokens) (v # s) c"
  by (simp add: roundTrips_def)

lemma roundTrips_Wildcard:
  "roundTrips tokens s c \<Longrightarrow> k \<noteq> [] \<Longrightarrow> roundTrips (Wildcard # tokens) (k # s) (k # c)"
  by (simp add: roundTrips_def)

lemma roundTrips_Array:
  "roundTrips tokens s c \<Longrightarrow>
     roundTrips (ArrayToken f # tokens) (f # showNat i # s) (showNat i # c)"
  using showNat_digits [of i] by (simp add: roundTrips_def showNat_index)

text \<open>
  Every match that \<open>walk\<close> emits extends the segments and captures it was called
  with, and the extension round-trips when no captured key is the empty string.
\<close>

lemma walk_round_trip:
  "m \<in> set (walk node tokens segs caps) \<Longrightarrow>
     \<exists>s c. segments m = segs @ s \<and> captures m = caps @ c \<and>
           ([] \<notin> set c \<longrightarrow> roundTrips tokens s c)"
proof (induction node tokens segs caps arbitrary: m rule: walk.induct)
  case (1 node segs caps)
  then show ?case by (auto simp: mkMatch_def roundTrips_Nil)
next
  case (2 node v tokens segs caps)
  from "2.prems" obtain kvs where node: "node = JObj kvs"
    by (cases node) auto
  show ?case
  proof (cases "tokens = []")
    case True
    with "2.prems" node have "segments m = segs @ [v]" "captures m = caps @ []"
      by (auto simp: mkMatch_def)
    moreover have "roundTrips (Literal v # tokens) [v] []"
      using True roundTrips_Literal [OF roundTrips_Nil] by simp
    ultimately show ?thesis by blast
  next
    case False
    with "2.prems" node have own: "hasOwn kvs v" and
      mem: "m \<in> set (walk (getProp kvs v) tokens (segs @ [v]) caps)"
      by (auto split: if_splits)
    from "2.IH" [OF node False _ mem] own
    obtain s c where sc: "segments m = (segs @ [v]) @ s" "captures m = caps @ c"
      "[] \<notin> set c \<longrightarrow> roundTrips tokens s c" by auto
    then have "segments m = segs @ (v # s)" by simp
    with sc roundTrips_Literal show ?thesis by blast
  qed
next
  case (3 node tokens segs caps)
  from "3.prems" obtain kvs where node: "node = JObj kvs"
    by (cases node) auto
  with "3.prems" obtain key child where kc: "(key, child) \<in> set kvs" and
    mem: "m \<in> set (if tokens = [] then [mkMatch (segs @ [key]) (caps @ [key]) child]
                     else walk child tokens (segs @ [key]) (caps @ [key]))"
    by auto
  show ?case
  proof (cases "tokens = []")
    case True
    with mem have "segments m = segs @ [key]" "captures m = caps @ [key]"
      by (auto simp: mkMatch_def)
    moreover have "[] \<notin> set [key] \<longrightarrow> roundTrips (Wildcard # tokens) [key] [key]"
      using True roundTrips_Wildcard [OF roundTrips_Nil] by simp
    ultimately show ?thesis by blast
  next
    case False
    with mem have mem': "m \<in> set (walk child tokens (segs @ [key]) (caps @ [key]))" by simp
    from "3.IH" [OF node kc _ False mem']
    obtain s c where sc: "segments m = (segs @ [key]) @ s" "captures m = (caps @ [key]) @ c"
      "[] \<notin> set c \<longrightarrow> roundTrips tokens s c" by auto
    then have "segments m = segs @ (key # s)" "captures m = caps @ (key # c)" by simp_all
    moreover have "[] \<notin> set (key # c) \<longrightarrow> roundTrips (Wildcard # tokens) (key # s) (key # c)"
      using sc(3) roundTrips_Wildcard by auto
    ultimately show ?thesis by blast
  qed
next
  case (4 node field tokens segs caps)
  from "4.prems" obtain kvs where node: "node = JObj kvs"
    by (cases node) auto
  with "4.prems" obtain items where items: "getProp kvs field = JArr items"
    by (cases "getProp kvs field") auto
  with "4.prems" node obtain index item where
    ii: "(index, item) \<in> set (zip [0 ..< length items] items)" and
    mem: "m \<in> set (if tokens = []
                     then [mkMatch (segs @ [field, showNat index]) (caps @ [showNat index]) item]
                     else walk item tokens (segs @ [field, showNat index]) (caps @ [showNat index]))"
    by auto
  show ?case
  proof (cases "tokens = []")
    case True
    with mem have "segments m = segs @ [field, showNat index]" "captures m = caps @ [showNat index]"
      by (auto simp: mkMatch_def)
    moreover have "roundTrips (ArrayToken field # tokens) [field, showNat index] [showNat index]"
      using True roundTrips_Array [OF roundTrips_Nil] by simp
    ultimately show ?thesis by blast
  next
    case False
    with mem have
      mem': "m \<in> set (walk item tokens (segs @ [field, showNat index]) (caps @ [showNat index]))"
      by simp
    from "4.IH" [OF node items ii _ False mem']
    obtain s c where sc: "segments m = (segs @ [field, showNat index]) @ s"
      "captures m = (caps @ [showNat index]) @ c"
      "[] \<notin> set c \<longrightarrow> roundTrips tokens s c" by auto
    then have "segments m = segs @ (field # showNat index # s)"
      "captures m = caps @ (showNat index # c)"
      by simp_all
    moreover have "[] \<notin> set (showNat index # c) \<longrightarrow>
        roundTrips (ArrayToken field # tokens) (field # showNat index # s) (showNat index # c)"
      using sc(3) roundTrips_Array by auto
    ultimately show ?thesis by blast
  qed
qed

text \<open>
  Claim C5, as the code has it. For every token list (so for the path tokens of
  every compiled registry entry), every tree and every match that
  \<open>expandPathTokens\<close> produces: when none of the match's captures is the empty
  string, matching the match's segments against the tokens succeeds with exactly
  the match's captures, and materialising the tokens with those captures gives
  back exactly the match's segments. A capture is empty only when a wildcard token
  was expanded over a property whose key is the empty string.
\<close>

theorem expand_match_materialize_round_trip:
  assumes "m \<in> set (expandPathTokens root tokens)"
    and "[] \<notin> set (captures m)"
  shows "matchPathTokens (segments m) tokens = Some (captures m) \<and>
         materializePathTokens tokens (captures m) = Some (segments m)"
proof -
  from walk_round_trip [OF assms(1) [unfolded expandPathTokens_def]] assms(2)
  have "roundTrips tokens (segments m) (captures m)" by auto
  then show ?thesis
    unfolding roundTrips_def matchPathTokens_def materializePathTokens_def
    by (metis append_Nil)
qed

text \<open>
  The theorem at the pattern \<open>agents.list[].id\<close> and a tree with a two-element
  list: the second match, \<open>agents.list.1.id\<close>.
\<close>

theorem expand_match_materialize_round_trip_witness:
  "mkMatch [''agents'', ''list'', ''1'', ''id''] [''1''] (JStr ''b'')
     \<in> set (expandPathTokens
              (JObj [(''agents'', JObj [(''list'', JArr [JObj [(''id'', JStr ''a'')],
                                                        JObj [(''id'', JStr ''b'')]])])])
              [Literal ''agents'', ArrayToken ''list'', Literal ''id''])
   \<and> [] \<notin> set [''1'']
   \<and> matchPathTokens [''agents'', ''list'', ''1'', ''id'']
         [Literal ''agents'', ArrayToken ''list'', Literal ''id''] = Some [''1'']
   \<and> materializePathTokens [Literal ''agents'', ArrayToken ''list'', Literal ''id''] [''1'']
         = Some [''agents'', ''list'', ''1'', ''id'']"
proof -
  let ?root = "JObj [(''agents'', JObj [(''list'', JArr [JObj [(''id'', JStr ''a'')],
                                                        JObj [(''id'', JStr ''b'')]])])]"
  let ?tokens = "[Literal ''agents'', ArrayToken ''list'', Literal ''id'']"
  let ?m = "mkMatch [''agents'', ''list'', ''1'', ''id''] [''1''] (JStr ''b'')"
  have upt: "[0 ..< 2] = [0, Suc 0]" by (simp add: upt_rec)
  have s0: "showNat 0 = ''0''" and s1: "showNat (Suc 0) = ''1''"
    by (simp_all add: showNat.simps digitChar_def)
  have h1: "?m \<in> set (expandPathTokens ?root ?tokens)"
    by (simp add: expandPathTokens_def getProp_def hasOwn_def upt s0 s1)
  have h2: "[] \<notin> set (captures ?m)" by (simp add: mkMatch_def)
  from expand_match_materialize_round_trip [OF h1 h2] h1 show ?thesis
    by (simp add: mkMatch_def)
qed

text \<open>
  Claim C5 as stated fails where a wildcard meets the empty key. The pattern
  \<open>models.providers.*.apiKey\<close> compiles to four tokens; over the tree
  \<open>{models: {providers: {"": {apiKey: "sk"}}}}\<close> expansion emits the match with
  segments \<open>models, providers, "", apiKey\<close>, and \<open>matchPathTokens\<close> rejects those
  segments, because its wildcard case refuses a segment that is falsy.
\<close>

theorem expand_match_round_trip_counterexample:
  "parsePathPattern ''models.providers.*.apiKey''
     = Inr [Literal ''models'', Literal ''providers'', Wildcard, Literal ''apiKey'']
   \<and> expandPathTokens
        (JObj [(''models'', JObj [(''providers'', JObj [('''', JObj [(''apiKey'', JStr ''sk'')])])])])
        [Literal ''models'', Literal ''providers'', Wildcard, Literal ''apiKey'']
     = [mkMatch [''models'', ''providers'', '''', ''apiKey''] [''''] (JStr ''sk'')]
   \<and> matchPathTokens [''models'', ''providers'', '''', ''apiKey'']
        [Literal ''models'', Literal ''providers'', Wildcard, Literal ''apiKey''] = None"
proof -
  have "parsePathPattern ''models.providers.*.apiKey''
     = Inr [Literal ''models'', Literal ''providers'', Wildcard, Literal ''apiKey'']"
    by (simp add: parsePathPattern_def parseDotPath_def parsePatternSegment_def trim_def
        isWhitespace_def endsWith_def)
  moreover have "expandPathTokens
        (JObj [(''models'', JObj [(''providers'', JObj [('''', JObj [(''apiKey'', JStr ''sk'')])])])])
        [Literal ''models'', Literal ''providers'', Wildcard, Literal ''apiKey'']
     = [mkMatch [''models'', ''providers'', '''', ''apiKey''] [''''] (JStr ''sk'')]"
    by (simp add: expandPathTokens_def getProp_def hasOwn_def)
  moreover have "matchPathTokens [''models'', ''providers'', '''', ''apiKey'']
        [Literal ''models'', Literal ''providers'', Wildcard, Literal ''apiKey''] = None"
    by (simp add: matchPathTokens_def)
  ultimately show ?thesis by simp
qed

section \<open>Audit exit code\<close>

lemma auditReport_summary: "summary (auditReport sortedFiles fs) = summarizeFindings fs"
  by (simp add: auditReport_def Let_def)

lemma auditReport_findings: "findings (auditReport sortedFiles fs) = fs"
  by (simp add: auditReport_def Let_def)

lemma unresolved_count_positive:
  "(unresolvedRefCount (summarizeFindings fs) > 0) = (\<exists>f \<in> set fs. findingCode f = REF_UNRESOLVED)"
  by (auto simp: summarizeFindings_def filter_empty_conv)

text \<open>
  Claim C6. For every report whose summary counts its findings, as
  \<open>runSecretsAudit\<close> builds it (\<open>auditReport_summary\<close>), and every check flag: the
  exit code is 2 when some finding is \<open>REF_UNRESOLVED\<close>; otherwise 1 when the check
  flag is set and there is a finding; otherwise 0.
\<close>

theorem audit_exit_code_policy:
  assumes "summary report = summarizeFindings (findings report)"
  shows "resolveSecretsAuditExitCode report check =
           (if (\<exists>f \<in> set (findings report). findingCode f = REF_UNRESOLVED) then 2
            else if check \<and> findings report \<noteq> [] then 1
            else 0)"
  using assms unresolved_count_positive [of "findings report"]
  by (simp add: resolveSecretsAuditExitCode_def)

text \<open>
  The theorem on the report of an audit that found one plaintext secret, with the
  check flag set: exit code 1.
\<close>

theorem audit_exit_code_policy_witness:
  "summary (auditReport [''/etc/openclaw.json'']
             [\<lparr>findingCode = PLAINTEXT_FOUND, severity = SeverityWarn, findingFile = ''/etc/openclaw.json'',
               jsonPath = ''talk.apiKey'', findingMessage = ''plaintext'', findingProvider = None,
               findingProfileId = None\<rparr>])
     = summarizeFindings (findings (auditReport [''/etc/openclaw.json'']
             [\<lparr>findingCode = PLAINTEXT_FOUND, severity = SeverityWarn, findingFile = ''/etc/openclaw.json'',
               jsonPath = ''talk.apiKey'', findingMessage = ''plaintext'', findingProvider = None,
               findingProfileId = None\<rparr>]))
   \<and> resolveSecretsAuditExitCode (auditReport [''/etc/openclaw.json'']
             [\<lparr>findingCode = PLAINTEXT_FOUND, severity = SeverityWarn, findingFile = ''/etc/openclaw.json'',
               jsonPath = ''talk.apiKey'', findingMessage = ''plaintext'', findingProvider = None,
               findingProfileId = None\<rparr>]) True = 1"
proof -
  let ?fs = "[\<lparr>findingCode = PLAINTEXT_FOUND, severity = SeverityWarn, findingFile = ''/etc/openclaw.json'',
               jsonPath = ''talk.apiKey'', findingMessage = ''plaintext'', findingProvider = None,
               findingProfileId = None\<rparr>]"
  let ?r = "auditReport [''/etc/openclaw.json''] ?fs"
  have h: "summary ?r = summarizeFindings (findings ?r)"
    by (simp only: auditReport_summary auditReport_findings)
  from audit_exit_code_policy [OF h, of True] h show ?thesis
    by (simp add: auditReport_findings)
qed

section \<open>Plan validation\<close>

lemma talkApiKey_compiles: "compileTargetRegistryEntry talkApiKeyEntry = Inr talkApiKeyCompiled"
  by (simp add: compileTargetRegistryEntry_def talkApiKeyEntry_def talkApiKeyCompiled_def
      parsePathPattern_def parseDotPath_def parsePatternSegment_def trim_def isWhitespace_def
      endsWith_def countDynamicPatternTokens_def Let_def)

lemma modelProvider_compiles:
  "compileTargetRegistryEntry modelProviderEntry = Inr modelProviderCompiled"
  by (simp add: compileTargetRegistryEntry_def modelProviderEntry_def modelProviderCompiled_def
      parsePathPattern_def parseDotPath_def parsePatternSegment_def trim_def isWhitespace_def
      endsWith_def countDynamicPatternTokens_def Let_def)

lemma targetsByType_mem:
  "e \<in> set (targetsByType registry ty) \<Longrightarrow>
     e \<in> set registry \<and> (targetType e = ty \<or> ty \<in> set (targetTypeAliases e))"
  by (auto simp: targetsByType_def split: if_splits)

lemma tryPlanEntry_Some:
  "tryPlanEntry e segs cp ca = Some r \<Longrightarrow>
     includeInPlan e \<and> matchPathTokens segs (pathTokens e) \<noteq> None
     \<and> entry r = e \<and> pathSegments r = segs
     \<and> providerId r = truthySegmentAt segs (providerIdPathSegmentIndex e)
     \<and> accountId r = truthySegmentAt segs (accountIdPathSegmentIndex e)
     \<and> (suppliedNonBlank cp \<longrightarrow> providerId r = cp)
     \<and> (suppliedNonBlank ca \<longrightarrow> accountId r = ca)"
  by (auto simp: tryPlanEntry_def toResolvedPlanTarget_def Let_def split: if_splits option.splits)

lemma firstResolved_Some:
  "firstResolved es segs cp ca = Some r \<Longrightarrow> \<exists>e \<in> set es. tryPlanEntry e segs cp ca = Some r"
  by (induction es) (auto split: option.splits)

lemma truthySegmentAt_Some:
  "truthySegmentAt segs idx = Some s \<Longrightarrow> \<exists>i. idx = Some i \<and> i < length segs \<and> segs ! i = s"
  by (auto simp: truthySegmentAt_def split: option.splits if_splits)

lemma resolveValidatedPlanTarget_Some:
  assumes "resolveValidatedPlanTarget registry c = Some r"
  shows "isKnownSecretTargetType registry (planType c)"
    and "trimmedPlanPath c \<noteq> []"
    and "toDotPath (planSegments c) = trimmedPlanPath c"
    and "\<not> hasForbiddenPathSegment (planSegments c)"
    and "\<exists>e \<in> set (targetsByType registry (the (planType c))).
            tryPlanEntry e (planSegments c) (planProviderId c) (planAccountId c) = Some r"
  using assms
  by (auto simp: resolveValidatedPlanTarget_def Let_def resolvePlanTargetAgainstRegistry_def
      split: if_splits dest: firstResolved_Some)

lemma suppliedNonBlank_iff: "suppliedNonBlank (Some s) = (trim s \<noteq> [])"
  by (auto simp: suppliedNonBlank_def trim_def)

text \<open>
  Claim C7, as the code has it. \<open>trimmedPlanPath\<close> is the target's path with the
  surrounding white space removed; \<open>planSegments\<close> are the target's \<open>pathSegments\<close>
  when given and not the empty array, each trimmed and the blank ones dropped,
  and otherwise the segments parsed from the trimmed path. For every registry:

  \<^item> \<open>resolveValidatedPlanTarget\<close> returns \<open>null\<close> for a target whose type is
    unknown, whose trimmed path is empty, whose \<open>planSegments\<close> do not serialise
    to exactly the trimmed path, whose \<open>planSegments\<close> contain \<open>__proto__\<close>,
    \<open>prototype\<close> or \<open>constructor\<close>, or whose \<open>planSegments\<close> match the path tokens
    of no plan entry registered under its type;
  \<^item> where it returns a target, a \<open>providerId\<close> (an \<open>accountId\<close>) that the caller
    supplied and that is not blank is the segment at the entry's
    \<open>providerIdPathSegmentIndex\<close> (\<open>accountIdPathSegmentIndex\<close>);
  \<^item> \<open>isSecretsApplyPlan\<close> returns \<open>false\<close> for a plan with a target for which
    \<open>resolveValidatedPlanTarget\<close> returns \<open>null\<close>.
\<close>

theorem plan_target_validation:
  "((\<not> isKnownSecretTargetType registry (planType c)
      \<or> trimmedPlanPath c = []
      \<or> toDotPath (planSegments c) \<noteq> trimmedPlanPath c
      \<or> hasForbiddenPathSegment (planSegments c)
      \<or> (\<forall>e \<in> set registry.
            includeInPlan e
            \<and> (planType c = Some (targetType e) \<or> the (planType c) \<in> set (targetTypeAliases e))
            \<longrightarrow> matchPathTokens (planSegments c) (pathTokens e) = None))
     \<longrightarrow> resolveValidatedPlanTarget registry c = None)
   \<and> (\<forall>r. resolveValidatedPlanTarget registry c = Some r \<longrightarrow>
         (\<forall>pid. planProviderId c = Some pid \<and> trim pid \<noteq> [] \<longrightarrow>
            (\<exists>i. providerIdPathSegmentIndex (entry r) = Some i \<and> i < length (pathSegments r)
                 \<and> pathSegments r ! i = pid))
       \<and> (\<forall>aid. planAccountId c = Some aid \<and> trim aid \<noteq> [] \<longrightarrow>
            (\<exists>i. accountIdPathSegmentIndex (entry r) = Some i \<and> i < length (pathSegments r)
                 \<and> pathSegments r ! i = aid)))
   \<and> (resolveValidatedPlanTarget registry c = None \<and> c \<in> set (planTargets plan)
        \<longrightarrow> \<not> isSecretsApplyPlan registry aliasOk shapeOk plan)"
proof (intro conjI impI allI)
  assume a: "\<not> isKnownSecretTargetType registry (planType c)
      \<or> trimmedPlanPath c = []
      \<or> toDotPath (planSegments c) \<noteq> trimmedPlanPath c
      \<or> hasForbiddenPathSegment (planSegments c)
      \<or> (\<forall>e \<in> set registry.
            includeInPlan e
            \<and> (planType c = Some (targetType e) \<or> the (planType c) \<in> set (targetTypeAliases e))
            \<longrightarrow> matchPathTokens (planSegments c) (pathTokens e) = None)"
  show "resolveValidatedPlanTarget registry c = None"
  proof (rule ccontr)
    assume "resolveValidatedPlanTarget registry c \<noteq> None"
    then obtain r where r: "resolveValidatedPlanTarget registry c = Some r" by auto
    note f = resolveValidatedPlanTarget_Some [OF r]
    from f(5) obtain e where e: "e \<in> set (targetsByType registry (the (planType c)))"
      and t: "tryPlanEntry e (planSegments c) (planProviderId c) (planAccountId c) = Some r"
      by auto
    from f(1) obtain ty where ty: "planType c = Some ty"
      by (auto simp: isKnownSecretTargetType_def split: option.splits)
    from targetsByType_mem [OF e] ty have "e \<in> set registry"
      "planType c = Some (targetType e) \<or> the (planType c) \<in> set (targetTypeAliases e)"
      by auto
    moreover from tryPlanEntry_Some [OF t] have "includeInPlan e"
      "matchPathTokens (planSegments c) (pathTokens e) \<noteq> None" by auto
    moreover from a f(1-4) have "\<forall>e \<in> set registry.
            includeInPlan e
            \<and> (planType c = Some (targetType e) \<or> the (planType c) \<in> set (targetTypeAliases e))
            \<longrightarrow> matchPathTokens (planSegments c) (pathTokens e) = None" by simp
    ultimately show False by auto
  qed
next
  fix r pid
  assume r: "resolveValidatedPlanTarget registry c = Some r"
    and p: "planProviderId c = Some pid \<and> trim pid \<noteq> []"
  from resolveValidatedPlanTarget_Some(5) [OF r] obtain e where
    t: "tryPlanEntry e (planSegments c) (planProviderId c) (planAccountId c) = Some r" by auto
  from tryPlanEntry_Some [OF t] p suppliedNonBlank_iff [of pid]
  have "entry r = e" "pathSegments r = planSegments c"
    "truthySegmentAt (planSegments c) (providerIdPathSegmentIndex e) = Some pid" by auto
  with truthySegmentAt_Some
  show "\<exists>i. providerIdPathSegmentIndex (entry r) = Some i \<and> i < length (pathSegments r)
                 \<and> pathSegments r ! i = pid" by metis
next
  fix r aid
  assume r: "resolveValidatedPlanTarget registry c = Some r"
    and p: "planAccountId c = Some aid \<and> trim aid \<noteq> []"
  from resolveValidatedPlanTarget_Some(5) [OF r] obtain e where
    t: "tryPlanEntry e (planSegments c) (planProviderId c) (planAccountId c) = Some r" by auto
  from tryPlanEntry_Some [OF t] p suppliedNonBlank_iff [of aid]
  have "entry r = e" "pathSegments r = planSegments c"
    "truthySegmentAt (planSegments c) (accountIdPathSegmentIndex e) = Some aid" by auto
  with truthySegmentAt_Some
  show "\<exists>i. accountIdPathSegmentIndex (entry r) = Some i \<and> i < length (pathSegments r)
                 \<and> pathSegments r ! i = aid" by metis
next
  assume "resolveValidatedPlanTarget registry c = None \<and> c \<in> set (planTargets plan)"
  then have "\<not> isValidPlanTarget registry c" "c \<in> set (planTargets plan)"
    by (auto simp: isValidPlanTarget_def)
  then have "\<not> list_all (isValidPlanTarget registry) (planTargets plan)"
    by (auto simp: list_all_iff)
  then show "\<not> isSecretsApplyPlan registry aliasOk shapeOk plan"
    by (simp add: isSecretsApplyPlan_def)
qed

text \<open>
  The theorem on the registry of the \<open>models.providers.*.apiKey\<close> entry, with the
  caller-supplied provider id \<open>openai\<close>. The target at
  \<open>models.providers.__proto__.apiKey\<close> has a forbidden segment and is rejected,
  alone and in a plan; the target at \<open>models.providers.openai.apiKey\<close> is
  accepted, and its provider id is segment 2 of the path.
\<close>

theorem plan_target_validation_witness:
  "hasForbiddenPathSegment
     (planSegments (openaiTarget [''models'', ''providers'', ''__proto__'', ''apiKey'']))
   \<and> resolveValidatedPlanTarget [modelProviderCompiled]
        (openaiTarget [''models'', ''providers'', ''__proto__'', ''apiKey'']) = None
   \<and> \<not> isSecretsApplyPlan [modelProviderCompiled] (\<lambda>alias. True) (\<lambda>config. True)
          \<lparr>planVersion = 1, planProtocolVersion = 1,
           planTargets = [openaiTarget [''models'', ''providers'', ''__proto__'', ''apiKey'']],
           providerUpserts = None, providerDeletes = None\<rparr>
   \<and> (\<exists>r. resolveValidatedPlanTarget [modelProviderCompiled]
              (openaiTarget [''models'', ''providers'', ''openai'', ''apiKey'']) = Some r
          \<and> providerIdPathSegmentIndex (entry r) = Some 2
          \<and> pathSegments r ! 2 = ''openai'')"
proof -
  let ?bad = "openaiTarget [''models'', ''providers'', ''__proto__'', ''apiKey'']"
  let ?good = "openaiTarget [''models'', ''providers'', ''openai'', ''apiKey'']"
  let ?plan = "\<lparr>planVersion = 1, planProtocolVersion = 1, planTargets = [?bad],
                providerUpserts = None, providerDeletes = None\<rparr>"
  have h1: "hasForbiddenPathSegment (planSegments ?bad)"
    by (simp add: openaiTarget_def planSegments_def hasForbiddenPathSegment_def
        FORBIDDEN_PATH_SEGMENTS_def trim_def isWhitespace_def)
  have h2: "?bad \<in> set (planTargets ?plan)" by simp
  have h3: "resolveValidatedPlanTarget [modelProviderCompiled] ?good \<noteq> None"
    by (simp add: resolveValidatedPlanTarget_def isKnownSecretTargetType_def targetsByType_def
        modelProviderCompiled_def modelProviderEntry_def SecretTargetRegistryEntry.extend_def
        openaiTarget_def trimmedPlanPath_def planSegments_def toDotPath_def trim_def
        isWhitespace_def hasForbiddenPathSegment_def FORBIDDEN_PATH_SEGMENTS_def
        resolvePlanTargetAgainstRegistry_def tryPlanEntry_def matchPathTokens_def
        toResolvedPlanTarget_def truthySegmentAt_def suppliedNonBlank_def Let_def)
  then obtain r where r: "resolveValidatedPlanTarget [modelProviderCompiled] ?good = Some r"
    by auto
  have h4: "planProviderId ?good = Some ''openai'' \<and> trim ''openai'' \<noteq> []"
    by (simp add: openaiTarget_def trim_def isWhitespace_def)
  from plan_target_validation [of "[modelProviderCompiled]" ?bad ?plan "\<lambda>alias. True" "\<lambda>config. True"]
    h1 h2
  have bad: "resolveValidatedPlanTarget [modelProviderCompiled] ?bad = None"
    "\<not> isSecretsApplyPlan [modelProviderCompiled] (\<lambda>alias. True) (\<lambda>config. True) ?plan"
    by blast+
  from plan_target_validation [of "[modelProviderCompiled]" ?good ?plan "\<lambda>alias. True" "\<lambda>config. True"]
    r h4
  obtain i where i: "providerIdPathSegmentIndex (entry r) = Some i" "pathSegments r ! i = ''openai''"
    by blast
  from resolveValidatedPlanTarget_Some(5) [OF r] tryPlanEntry_Some
  have "entry r = modelProviderCompiled"
    by (fastforce simp: targetsByType_def split: if_splits)
  with i have "i = 2"
    by (simp add: modelProviderCompiled_def modelProviderEntry_def SecretTargetRegistryEntry.extend_def)
  with i r h1 bad show ?thesis by auto
qed

text \<open>
  Claim C7 as stated fails on segments that need normalising. On the registry of
  the \<open>talk.apiKey\<close> entry, the target with path \<open>talk.apiKey\<close> and pathSegments
  \<open>[" talk ", "apiKey"]\<close> is accepted by \<open>resolveValidatedPlanTarget\<close> and by
  \<open>isSecretsApplyPlan\<close>, although its pathSegments serialise to \<open> talk .apiKey\<close>,
  which is not the path.
\<close>

theorem plan_target_validation_counterexample:
  "planPathSegments paddedTalkTarget = Some ['' talk '', ''apiKey'']
   \<and> planPath paddedTalkTarget = Some ''talk.apiKey''
   \<and> toDotPath ['' talk '', ''apiKey''] = '' talk .apiKey''
   \<and> toDotPath ['' talk '', ''apiKey''] \<noteq> ''talk.apiKey''
   \<and> resolveValidatedPlanTarget [talkApiKeyCompiled] paddedTalkTarget
       = Some \<lparr>entry = talkApiKeyCompiled, pathSegments = [''talk'', ''apiKey''],
               refPathSegments = None, providerId = None, accountId = None\<rparr>
   \<and> isSecretsApplyPlan [talkApiKeyCompiled] (\<lambda>alias. True) (\<lambda>config. True)
        \<lparr>planVersion = 1, planProtocolVersion = 1, planTargets = [paddedTalkTarget],
         providerUpserts = None, providerDeletes = None\<rparr>"
proof -
  have r: "resolveValidatedPlanTarget [talkApiKeyCompiled] paddedTalkTarget
       = Some \<lparr>entry = talkApiKeyCompiled, pathSegments = [''talk'', ''apiKey''],
               refPathSegments = None, providerId = None, accountId = None\<rparr>"
    by (simp add: resolveValidatedPlanTarget_def isKnownSecretTargetType_def targetsByType_def
        talkApiKeyCompiled_def talkApiKeyEntry_def SecretTargetRegistryEntry.extend_def
        paddedTalkTarget_def trimmedPlanPath_def planSegments_def toDotPath_def trim_def
        isWhitespace_def hasForbiddenPathSegment_def FORBIDDEN_PATH_SEGMENTS_def
        resolvePlanTargetAgainstRegistry_def tryPlanEntry_def matchPathTokens_def
        toResolvedPlanTarget_def truthySegmentAt_def suppliedNonBlank_def Let_def)
  have k: "isKnownSecretTargetType [talkApiKeyCompiled] (planType paddedTalkTarget)"
    by (simp add: isKnownSecretTargetType_def targetsByType_def talkApiKeyCompiled_def
        talkApiKeyEntry_def SecretTargetRegistryEntry.extend_def paddedTalkTarget_def)
  have v: "isValidPlanTarget [talkApiKeyCompiled] paddedTalkTarget"
    unfolding isValidPlanTarget_def r using k
    by (simp add: paddedTalkTarget_def blankOrMissing_def trim_def isWhitespace_def
        talkApiKeyCompiled_def talkApiKeyEntry_def SecretTargetRegistryEntry.extend_def)
  have p: "isSecretsApplyPlan [talkApiKeyCompiled] (\<lambda>alias. True) (\<lambda>config. True)
        \<lparr>planVersion = 1, planProtocolVersion = 1, planTargets = [paddedTalkTarget],
         providerUpserts = None, providerDeletes = None\<rparr>"
    using v by (simp add: isSecretsApplyPlan_def)
  have d: "toDotPath ['' talk '', ''apiKey''] = '' talk .apiKey''"
    by (simp add: toDotPath_def)
  show ?thesis using r p d by (simp add: paddedTalkTarget_def)
qed

section \<open>Tlon outbound session\<close>

text \<open>
  Claim C9. The input \<open>group:~host-ship/general\<close> resolves to the group peer
  \<open>chat/~host-ship/general\<close> with from \<open>tlon:group:chat/~host-ship/general\<close> and to
  \<open>tlon:chat/~host-ship/general\<close>; and every input that is blank after trimming, or
  blank after trimming, stripping a leading \<open>tlon:\<close> and trimming again, resolves
  to \<open>null\<close>.
\<close>

theorem tlon_outbound_session:
  "resolveTlonOutboundSession ''group:~host-ship/general''
     = Some \<lparr>peer = \<lparr>peerKind = PeerGroup, peerId = ''chat/~host-ship/general''\<rparr>,
             chatType = PeerGroup,
             sessionFrom = ''tlon:group:chat/~host-ship/general'',
             sessionTo = ''tlon:chat/~host-ship/general''\<rparr>
   \<and> (\<forall>target. trim target = [] \<or> trim (stripTlonPrefix (trim target)) = []
         \<longrightarrow> resolveTlonOutboundSession target = None)"
proof
  show "resolveTlonOutboundSession ''group:~host-ship/general''
     = Some \<lparr>peer = \<lparr>peerKind = PeerGroup, peerId = ''chat/~host-ship/general''\<rparr>,
             chatType = PeerGroup,
             sessionFrom = ''tlon:group:chat/~host-ship/general'',
             sessionTo = ''tlon:chat/~host-ship/general''\<rparr>"
    by (simp add: resolveTlonOutboundSession_def trim_def isWhitespace_def stripTlonPrefix_def
        stripGroupPrefix_def startsWith_def toLowerCase_def lowerChar_def splitSlashParts_def
        chatPeerId_def normalizeTlonShip_def tlonResult_def Let_def)
next
  show "\<forall>target. trim target = [] \<or> trim (stripTlonPrefix (trim target)) = []
         \<longrightarrow> resolveTlonOutboundSession target = None"
    by (auto simp: resolveTlonOutboundSession_def Let_def)
qed

text \<open>The theorem at the blank inputs of three spaces and of \<open> TLON:  \<close>.\<close>

theorem tlon_outbound_session_witness:
  "trim ''   '' = []
   \<and> resolveTlonOutboundSession ''   '' = None
   \<and> trim (stripTlonPrefix (trim '' TLON:  '')) = []
   \<and> resolveTlonOutboundSession '' TLON:  '' = None"
proof -
  have h1: "trim ''   '' = []"
    by (simp add: trim_def isWhitespace_def)
  have h2: "trim (stripTlonPrefix (trim '' TLON:  '')) = []"
    by (simp add: trim_def isWhitespace_def stripTlonPrefix_def startsWith_def toLowerCase_def
        lowerChar_def)
  from tlon_outbound_session h1 h2 show ?thesis
    by blast
qed

section \<open>Empty paths and the error branches of the strict mutations\<close>

lemma markChanged_Inl: "markChanged r = Inl e \<Longrightarrow> r = Inl e"
  by (cases r) auto

lemma setPathCreateStrict_errors:
  "segs \<noteq> [] \<Longrightarrow> snd (setPathCreateStrict cursor segs v) = Inl e \<Longrightarrow>
     e = InvalidArrayIndexSegment \<or> e = InvalidPathShape"
proof (induction cursor segs v rule: setPathCreateStrict.induct)
  case (1 cursor v)
  then show ?case by simp
next
  case (2 cursor leaf v)
  then show ?case by (cases cursor) (auto split: if_splits)
next
  case (3 cursor segment nextSegment rest v)
  then show ?case
    by (cases cursor) (auto simp: Let_def split: if_splits prod.splits dest!: markChanged_Inl)
qed

lemma setPathExistingStrict_errors:
  "segs \<noteq> [] \<Longrightarrow> snd (setPathExistingStrict cursor segs v) = Inl e \<Longrightarrow>
     e = InvalidArrayIndexSegment \<or> e = InvalidPathShape \<or> e = PathSegmentMissing"
proof (induction cursor segs v rule: setPathExistingStrict.induct)
  case (1 cursor v)
  then show ?case by simp
next
  case (2 cursor leaf v)
  then show ?case by (cases cursor) (auto split: if_splits)
next
  case (3 cursor segment nextSegment rest v)
  then show ?case
    by (cases cursor) (auto simp: Let_def split: if_splits prod.splits)
qed

lemma deletePathStrict_errors:
  "segs \<noteq> [] \<Longrightarrow> snd (deletePathStrict cursor segs) = Inl e \<Longrightarrow>
     e = InvalidArrayIndexSegment \<or> e = InvalidPathShape"
proof (induction cursor segs rule: deletePathStrict.induct)
  case (1 cursor)
  then show ?case by simp
next
  case (2 cursor leaf)
  then show ?case by (cases cursor) (auto split: if_splits)
next
  case (3 cursor segment nextSegment rest)
  then show ?case
    by (cases cursor) (auto simp: Let_def split: if_splits prod.splits)
qed

text \<open>
  Claim C10. On the empty segment list \<open>getPath\<close> returns \<open>undefined\<close> and each
  strict mutation throws \<open>Target path is empty.\<close>, whatever the tree is and leaving
  it as it was. On a non-empty segment list that error never occurs: what
  \<open>setPathCreateStrict\<close> and \<open>deletePathStrict\<close> can throw are the two path-shape
  errors (\<open>Invalid array index segment\<close>, \<open>Invalid path shape\<close>), and
  \<open>setPathExistingStrict\<close> those and the missing-segment error
  (\<open>Path segment does not exist\<close>).
\<close>

theorem strict_path_empty_and_error_branches:
  "getPath root [] = JUndefined
   \<and> setPathCreateStrict root [] v = (root, Inl TargetPathEmpty)
   \<and> setPathExistingStrict root [] v = (root, Inl TargetPathEmpty)
   \<and> deletePathStrict root [] = (root, Inl TargetPathEmpty)
   \<and> (segs \<noteq> [] \<longrightarrow>
        (\<forall>e. snd (setPathCreateStrict root segs v) = Inl e
              \<longrightarrow> e \<in> {InvalidArrayIndexSegment, InvalidPathShape})
      \<and> (\<forall>e. snd (setPathExistingStrict root segs v) = Inl e
              \<longrightarrow> e \<in> {InvalidArrayIndexSegment, InvalidPathShape, PathSegmentMissing})
      \<and> (\<forall>e. snd (deletePathStrict root segs) = Inl e
              \<longrightarrow> e \<in> {InvalidArrayIndexSegment, InvalidPathShape}))"
  using setPathCreateStrict_errors [of segs root v]
        setPathExistingStrict_errors [of segs root v]
        deletePathStrict_errors [of segs root]
  by (auto simp: getPath_def)

text \<open>
  The theorem at the path \<open>agents.list.0.memorySearch.remote.apiKey\<close> on a tree
  whose first agent has no \<open>memorySearch\<close>: \<open>setPathExistingStrict\<close> throws the
  missing-segment error there.
\<close>

theorem strict_path_empty_and_error_branches_witness:
  "[''agents'', ''list'', ''0'', ''memorySearch'', ''remote'', ''apiKey''] \<noteq> []
   \<and> snd (setPathExistingStrict
            (JObj [(''agents'', JObj [(''list'', JArr [JObj [(''id'', JStr ''a'')]])])])
            [''agents'', ''list'', ''0'', ''memorySearch'', ''remote'', ''apiKey'']
            (JStr ''x'')) = Inl PathSegmentMissing
   \<and> PathSegmentMissing \<in> {InvalidArrayIndexSegment, InvalidPathShape, PathSegmentMissing}"
proof -
  have h: "snd (setPathExistingStrict
            (JObj [(''agents'', JObj [(''list'', JArr [JObj [(''id'', JStr ''a'')]])])])
            [''agents'', ''list'', ''0'', ''memorySearch'', ''remote'', ''apiKey'']
            (JStr ''x'')) = Inl PathSegmentMissing"
    by (simp add: hasOwn_def getProp_def isArrayIndexSegment_def isDigit_def parseIndex_def
        digitValue_def arrGet_def arrSet_def)
  from strict_path_empty_and_error_branches
         [of "JObj [(''agents'', JObj [(''list'', JArr [JObj [(''id'', JStr ''a'')]])])]"
             "JStr ''x''"
             "[''agents'', ''list'', ''0'', ''memorySearch'', ''remote'', ''apiKey'']"] h
  show ?thesis by simp
qed

section \<open>What one collected input adds to the context\<close>

lemma collectSecretInputAssignment_assignments:
  "assignments (collectSecretInputAssignment coerce ctx v p e active reason tgt)
     = assignments ctx @
       (case coerce v of
          None \<Rightarrow> []
        | Some r \<Rightarrow> if active = Some False then []
                    else [\<lparr>assignRef = r, assignPath = p, assignExpected = e, assignTarget = tgt\<rparr>])"
  by (simp add: collectSecretInputAssignment_def pushInactiveSurfaceWarning_def pushWarning_def
      pushAssignment_def split: option.splits)

lemma collectSecretInputAssignment_warnings:
  "warnings (collectSecretInputAssignment coerce ctx v p e active reason tgt)
     = warnings ctx @
       (if coerce v \<noteq> None \<and> active = Some False
           \<and> warningKeyOf (inactiveSurfaceWarning p reason) \<notin> set (warningKeys ctx)
        then [inactiveSurfaceWarning p reason] else [])"
  by (simp add: collectSecretInputAssignment_def pushInactiveSurfaceWarning_def pushWarning_def
      pushAssignment_def split: option.splits)

lemma collectSecretInputAssignment_warningKeys:
  "set (warningKeys (collectSecretInputAssignment coerce ctx v p e active reason tgt))
     = set (warningKeys ctx) \<union>
       (if coerce v \<noteq> None \<and> active = Some False
        then {warningKeyOf (inactiveSurfaceWarning p reason)} else {})"
  by (auto simp: collectSecretInputAssignment_def pushInactiveSurfaceWarning_def pushWarning_def
      pushAssignment_def split: option.splits)

lemma warningPath_inactive: "warningPath (inactiveSurfaceWarning p d) = p"
  by (simp add: inactiveSurfaceWarning_def)

lemma warningCode_inactive:
  "warningCode (inactiveSurfaceWarning p d) = SECRETS_REF_IGNORED_INACTIVE_SURFACE"
  by (simp add: inactiveSurfaceWarning_def)

lemma inactive_key:
  "warningKeyOf (inactiveSurfaceWarning p d)
     = ''SECRETS_REF_IGNORED_INACTIVE_SURFACE:'' @ p @ '':'' @ inactiveSurfaceMessage p d"
  by (simp add: warningKeyOf_def inactiveSurfaceWarning_def)

section \<open>Gateway remote token and password\<close>

lemma key_auth_ne_remote:
  "warningKeyOf (inactiveSurfaceWarning ''gateway.auth.password'' d)
     \<noteq> warningKeyOf (inactiveSurfaceWarning (''gateway.remote.'' @ f) d')"
  by (simp add: inactive_key)

lemma key_token_ne_password:
  "warningKeyOf (inactiveSurfaceWarning ''gateway.remote.token'' d)
     \<noteq> warningKeyOf (inactiveSurfaceWarning ''gateway.remote.password'' d')"
  by (simp add: inactive_key)

lemma collectGatewayAssignments_unfold:
  assumes "optionalProp config ''gateway'' = JObj gateway"
    and "getProp gateway ''remote'' = JObj remote"
  shows "collectGatewayAssignments coerce hasConfigured config ctx =
     (let context2 = collectSecretInputAssignment coerce (authStep coerce gateway ctx)
                       (getProp remote ''token'')
                       ''gateway.remote.token'' ExpectedString
                       (Some (remoteSurfaceActive hasConfigured gateway remote ''token''))
                       (Some (remoteInactiveReason remote ''token''))
                       [''gateway'', ''remote'', ''token'']
      in collectSecretInputAssignment coerce context2 (getProp remote ''password'')
           ''gateway.remote.password'' ExpectedString
           (Some (remoteSurfaceActive hasConfigured gateway remote ''password''))
           (Some (remoteInactiveReason remote ''password''))
           [''gateway'', ''remote'', ''password''])"
  using assms
  by (cases "getProp remote ''enabled'' = JBool False")
     (simp_all add: collectGatewayAssignments_def Let_def remoteSurfaceActive_def
        remoteInactiveReason_def authStep_def)

lemma authStep_assignments:
  "filter (\<lambda>a. assignPath a = ''gateway.remote.'' @ f) (assignments (authStep coerce gateway ctx))
     = filter (\<lambda>a. assignPath a = ''gateway.remote.'' @ f) (assignments ctx)"
  by (cases "getProp gateway ''auth''")
     (auto simp: authStep_def collectSecretInputAssignment_assignments split: option.splits)

lemma authStep_warnings:
  "filter (\<lambda>w. warningPath w = ''gateway.remote.'' @ f) (warnings (authStep coerce gateway ctx))
     = filter (\<lambda>w. warningPath w = ''gateway.remote.'' @ f) (warnings ctx)"
  by (cases "getProp gateway ''auth''")
     (auto simp: authStep_def collectSecretInputAssignment_warnings warningPath_inactive)

lemma authStep_keys:
  "warningKeyOf (inactiveSurfaceWarning (''gateway.remote.'' @ f) d) \<notin> set (warningKeys ctx)
   \<Longrightarrow> warningKeyOf (inactiveSurfaceWarning (''gateway.remote.'' @ f) d)
         \<notin> set (warningKeys (authStep coerce gateway ctx))"
  using key_auth_ne_remote [of "Some authModeReason" f d]
  by (cases "getProp gateway ''auth''")
     (auto simp: authStep_def collectSecretInputAssignment_warningKeys)

text \<open>
  Claim C2, as the code has it. Take a configuration with a \<open>gateway\<close> section
  that has a \<open>remote\<close> section, \<open>field\<close> one of \<open>token\<close> and \<open>password\<close>, a secret ref
  at \<open>gateway.remote.field\<close>, and a resolver context that has not yet recorded the
  inactive-surface diagnostic of that path. Then \<open>collectGatewayAssignments\<close> adds
  exactly one assignment for \<open>gateway.remote.field\<close> and no diagnostic for it when
  \<open>gateway.remote.enabled\<close> is not \<open>false\<close> and the gateway mode is \<open>remote\<close>, or
  \<open>gateway.remote.url\<close> is a non-blank string, or no local \<open>gateway.auth.field\<close>
  secret is configured; otherwise it adds no assignment for that path and records
  the inactive-surface diagnostic.
\<close>

theorem gateway_remote_ref_activeness:
  assumes gw: "optionalProp config ''gateway'' = JObj gateway"
    and rm: "getProp gateway ''remote'' = JObj remote"
    and field: "field = ''token'' \<or> field = ''password''"
    and ref: "coerce (getProp remote field) = Some r"
    and fresh: "warningKeyOf (inactiveSurfaceWarning (''gateway.remote.'' @ field)
                  (Some (remoteInactiveReason remote field))) \<notin> set (warningKeys ctx)"
  shows "filter (\<lambda>a. assignPath a = ''gateway.remote.'' @ field)
           (assignments (collectGatewayAssignments coerce hasConfigured config ctx))
         = filter (\<lambda>a. assignPath a = ''gateway.remote.'' @ field) (assignments ctx)
           @ (if remoteSurfaceActive hasConfigured gateway remote field
              then [remoteAssignment r field] else [])
       \<and> filter (\<lambda>w. warningPath w = ''gateway.remote.'' @ field)
           (warnings (collectGatewayAssignments coerce hasConfigured config ctx))
         = filter (\<lambda>w. warningPath w = ''gateway.remote.'' @ field) (warnings ctx)
           @ (if remoteSurfaceActive hasConfigured gateway remote field then []
              else [inactiveSurfaceWarning (''gateway.remote.'' @ field)
                      (Some (remoteInactiveReason remote field))])"
proof -
  note u = collectGatewayAssignments_unfold [OF gw rm, of coerce hasConfigured ctx]
  from field show ?thesis
  proof
    assume f: "field = ''token''"
    have "filter (\<lambda>a. assignPath a = ''gateway.remote.token'')
           (assignments (collectGatewayAssignments coerce hasConfigured config ctx))
         = filter (\<lambda>a. assignPath a = ''gateway.remote.token'') (assignments ctx)
           @ (if remoteSurfaceActive hasConfigured gateway remote ''token''
              then [remoteAssignment r ''token''] else [])"
      using ref f authStep_assignments [of "''token''" coerce gateway ctx]
      by (simp add: u Let_def collectSecretInputAssignment_assignments remoteAssignment_def
          split: option.splits)
    moreover have "filter (\<lambda>w. warningPath w = ''gateway.remote.token'')
           (warnings (collectGatewayAssignments coerce hasConfigured config ctx))
         = filter (\<lambda>w. warningPath w = ''gateway.remote.token'') (warnings ctx)
           @ (if remoteSurfaceActive hasConfigured gateway remote ''token'' then []
              else [inactiveSurfaceWarning ''gateway.remote.token''
                      (Some (remoteInactiveReason remote ''token''))])"
      using ref fresh f authStep_warnings [of "''token''" coerce gateway ctx]
        authStep_keys [of "''token''" "Some (remoteInactiveReason remote ''token'')" ctx coerce gateway]
      by (simp add: u Let_def collectSecretInputAssignment_warnings warningPath_inactive)
    ultimately show ?thesis using f by simp
  next
    assume f: "field = ''password''"
    have "filter (\<lambda>a. assignPath a = ''gateway.remote.password'')
           (assignments (collectGatewayAssignments coerce hasConfigured config ctx))
         = filter (\<lambda>a. assignPath a = ''gateway.remote.password'') (assignments ctx)
           @ (if remoteSurfaceActive hasConfigured gateway remote ''password''
              then [remoteAssignment r ''password''] else [])"
      using ref f authStep_assignments [of "''password''" coerce gateway ctx]
      by (simp add: u Let_def collectSecretInputAssignment_assignments remoteAssignment_def
          split: option.splits)
    moreover have "filter (\<lambda>w. warningPath w = ''gateway.remote.password'')
           (warnings (collectGatewayAssignments coerce hasConfigured config ctx))
         = filter (\<lambda>w. warningPath w = ''gateway.remote.password'') (warnings ctx)
           @ (if remoteSurfaceActive hasConfigured gateway remote ''password'' then []
              else [inactiveSurfaceWarning ''gateway.remote.password''
                      (Some (remoteInactiveReason remote ''password''))])"
      using ref fresh f authStep_warnings [of "''password''" coerce gateway ctx]
        authStep_keys [of "''password''" "Some (remoteInactiveReason remote ''password'')" ctx
                          coerce gateway]
        key_token_ne_password key_token_ne_password [THEN not_sym]
      by (simp add: u Let_def collectSecretInputAssignment_warnings
          collectSecretInputAssignment_warningKeys warningPath_inactive)
    ultimately show ?thesis using f by simp
  qed
qed

lemma gatewayConfig_sections:
  "optionalProp (gatewayConfig mode) ''gateway'' = JObj (gatewaySection mode)"
  "getProp (gatewaySection mode) ''remote'' = JObj remoteSection"
  "coerceSecretRef noDefaults (getProp remoteSection ''token'') = Some (envRef ''REMOTE_TOKEN'')"
  "hasConfiguredSecretInput noDefaults (optionalProp (getProp (gatewaySection mode) ''auth'') ''token'')"
  by (simp_all add: gatewayConfig_def gatewaySection_def remoteSection_def optionalProp_def
      getProp_def envRefJson_def envRef_def coerceSecretRef_def sourceOfString_def
      hasConfiguredSecretInput_def)

text \<open>
  The theorem on the gateway in local mode with a local auth token in plaintext
  and an env ref as remote token, from the fresh context: the remote token is
  inactive, gets no assignment, and its diagnostic is recorded.
\<close>

theorem gateway_remote_ref_activeness_witness:
  "optionalProp (gatewayConfig ''local'') ''gateway'' = JObj (gatewaySection ''local'')
   \<and> getProp (gatewaySection ''local'') ''remote'' = JObj remoteSection
   \<and> coerceSecretRef noDefaults (getProp remoteSection ''token'') = Some (envRef ''REMOTE_TOKEN'')
   \<and> \<not> remoteSurfaceActive (hasConfiguredSecretInput noDefaults) (gatewaySection ''local'')
          remoteSection ''token''
   \<and> filter (\<lambda>a. assignPath a = ''gateway.remote.token'')
        (assignments (collectGatewayAssignments (coerceSecretRef noDefaults)
                        (hasConfiguredSecretInput noDefaults) (gatewayConfig ''local'')
                        createResolverContext)) = []
   \<and> filter (\<lambda>w. warningPath w = ''gateway.remote.token'')
        (warnings (collectGatewayAssignments (coerceSecretRef noDefaults)
                     (hasConfiguredSecretInput noDefaults) (gatewayConfig ''local'')
                     createResolverContext))
      = [inactiveSurfaceWarning ''gateway.remote.token''
           (Some ''gateway.remote.token is inactive because local gateway auth token is configured.'')]"
proof -
  have inactive: "\<not> remoteSurfaceActive (hasConfiguredSecretInput noDefaults)
                     (gatewaySection ''local'') remoteSection ''token''"
    using gatewayConfig_sections(4) [of "''local''"]
    by (simp add: remoteSurfaceActive_def)
       (simp add: gatewaySection_def remoteSection_def getProp_def trimmedString_def)
  have reason: "remoteInactiveReason remoteSection ''token''
     = ''gateway.remote.token is inactive because local gateway auth token is configured.''"
    by (simp add: remoteInactiveReason_def remoteSection_def getProp_def)
  have fresh: "warningKeyOf (inactiveSurfaceWarning (''gateway.remote.'' @ ''token'')
                  (Some (remoteInactiveReason remoteSection ''token'')))
               \<notin> set (warningKeys createResolverContext)"
    by (simp add: createResolverContext_def)
  have field: "''token'' = ''token'' \<or> ''token'' = ''password''" by simp
  from gateway_remote_ref_activeness
         [where config = "gatewayConfig ''local''" and gateway = "gatewaySection ''local''"
            and remote = remoteSection and field = "''token''"
            and coerce = "coerceSecretRef noDefaults" and r = "envRef ''REMOTE_TOKEN''"
            and ctx = createResolverContext
            and hasConfigured = "hasConfiguredSecretInput noDefaults",
          OF gatewayConfig_sections(1) gatewayConfig_sections(2) field gatewayConfig_sections(3)
             fresh]
       inactive reason gatewayConfig_sections(1) [of "''local''"]
       gatewayConfig_sections(2) [of "''local''"] gatewayConfig_sections(3)
  show ?thesis by (simp add: createResolverContext_def)
qed

text \<open>
  Claim C2 as stated fails in remote mode. The gateway mode is \<open>remote\<close>, a local
  auth token is configured (\<open>gateway.auth.token\<close> is the string \<open>local-token\<close>), and
  \<open>gateway.remote.token\<close> is an env ref: \<open>collectGatewayAssignments\<close> produces the
  assignment for \<open>gateway.remote.token\<close> and records no diagnostic.
\<close>

theorem gateway_remote_ref_counterexample:
  "hasConfiguredSecretInput noDefaults (JStr ''local-token'')
   \<and> collectGatewayAssignments (coerceSecretRef noDefaults) (hasConfiguredSecretInput noDefaults)
        (JObj [(''gateway'',
                JObj [(''mode'', JStr ''remote''),
                      (''auth'', JObj [(''token'', JStr ''local-token'')]),
                      (''remote'',
                       JObj [(''token'',
                              JObj [(''source'', JStr ''env''), (''provider'', JStr ''default''),
                                    (''id'', JStr ''REMOTE_TOKEN'')])])])])
        createResolverContext
     = \<lparr>warnings = [], warningKeys = [],
        assignments =
          [\<lparr>assignRef = \<lparr>secretSource = SourceEnv, secretProvider = ''default'',
                          secretId = ''REMOTE_TOKEN''\<rparr>,
            assignPath = ''gateway.remote.token'', assignExpected = ExpectedString,
            assignTarget = [''gateway'', ''remote'', ''token'']\<rparr>]\<rparr>"
  by (simp add: collectGatewayAssignments_def collectSecretInputAssignment_def
      createResolverContext_def pushAssignment_def optionalProp_def getProp_def
      coerceSecretRef_def sourceOfString_def hasConfiguredSecretInput_def trimmedString_def
      Let_def)

section \<open>Telegram bot token and token file\<close>


text \<open>
  The second copy of the collector, on the same two channels: the bot token is
  inactive, no assignment is emitted, and the diagnostic is recorded.
\<close>

lemma telegram_token_file_second_copy:
  "assignments (collectTelegramAssignmentsTokenFile (coerceSecretRef noDefaults)
                  telegramTokenFileConfig createResolverContext) = []
   \<and> warnings (collectTelegramAssignmentsTokenFile (coerceSecretRef noDefaults)
                 telegramTokenFileConfig createResolverContext)
      = [inactiveSurfaceWarning ''channels.telegram.botToken''
           (Some ''no enabled Telegram surface inherits this top-level botToken (tokenFile is configured).'')]
   \<and> assignments (collectTelegramAssignmentsTokenFile (coerceSecretRef noDefaults)
                    telegramAccountTokenFileConfig createResolverContext) = []
   \<and> warnings (collectTelegramAssignmentsTokenFile (coerceSecretRef noDefaults)
                 telegramAccountTokenFileConfig createResolverContext)
      = [inactiveSurfaceWarning ''channels.telegram.accounts.work.botToken''
           (Some ''Telegram account is disabled or tokenFile is configured.'')]"
  by (simp add: collectTelegramAssignmentsTokenFile_def telegramTokenFileConfig_def
      telegramAccountTokenFileConfig_def envRefJson_def
      collectTelegramWebhookSecrets_def resolveChannelAccountSurface_def
      isEnabledFlag_def isChannelAccountEffectivelyEnabled_def collectSecretInputAssignment_def
      createResolverContext_def pushAssignment_def pushInactiveSurfaceWarning_def pushWarning_def
      optionalProp_def getProp_def hasOwn_def
      coerceSecretRef_def sourceOfString_def trimmedString_def trim_def isWhitespace_def Let_def)

section \<open>Places in a tree: what an assignment changes and what it leaves\<close>


lemma getLoop_obj: "getLoop (JObj kvs) (k # rest) = getLoop (getProp kvs k) rest"
  by simp








section \<open>One Google Chat target\<close>



















section \<open>The Google Chat accounts\<close>


lemma surface_implicit:
  "(\<And>accs. getProp channel ''accounts'' = JObj accs \<Longrightarrow> accs = []) \<Longrightarrow>
     \<not> hasExplicitAccounts (resolveChannelAccountSurface channel)"
  by (cases "getProp channel ''accounts''")
     (auto simp: resolveChannelAccountSurface_def Let_def)

lemma accountEntries_mem:
  "e \<in> set (accountEntries channel accs) \<Longrightarrow>
     (entryAccountId e, JObj (entryAccount e)) \<in> set accs
     \<and> entryEnabled e = isChannelAccountEffectivelyEnabled (JObj channel) (JObj (entryAccount e))"
  by (auto simp: accountEntries_def split: json.splits)











lemma accountPath_inj: "accountPath e = accountPath e' \<Longrightarrow> entryAccountId e = entryAccountId e'"
  by (simp add: accountPath_def)



section \<open>Precedence of the sibling ref\<close>

lemma targetRef_explicit:
  "coerce (getProp target ''serviceAccountRef'') = Some r \<Longrightarrow> targetRef coerce target = Some r"
  by (simp add: targetRef_def resolveSecretInputRef_def)

lemma plaintextOverridden_both:
  "coerce (getProp target ''serviceAccountRef'') = Some r \<Longrightarrow>
   getProp target ''serviceAccount'' \<noteq> JUndefined \<Longrightarrow>
   coerce (getProp target ''serviceAccount'') = None \<Longrightarrow> plaintextOverridden coerce target"
  by (simp add: plaintextOverridden_def)
























section \<open>The secrets.resolve handler\<close>









section \<open>The commit step of apply: rollback\<close>

lemma nextFault_quiet:
  "noFurtherFault w \<Longrightarrow>
     fst (nextFault w) = None \<and> noFurtherFault (snd (nextFault w))
     \<and> files (snd (nextFault w)) = files w \<and> processPid (snd (nextFault w)) = processPid w"
  by (cases "faults w") (auto simp: nextFault_def noFurtherFault_def)

lemma nextFault_files:
  "files (snd (nextFault w)) = files w"
  by (cases "faults w") (auto simp: nextFault_def)

lemma fsCall_quiet:
  "noFurtherFault w \<Longrightarrow> fsCall effect w = effect (snd (nextFault w))"
  using nextFault_quiet [of w]
  by (cases "nextFault w") (auto simp: fsCall_def)

lemma dateNow_quiet:
  "noFurtherFault w \<Longrightarrow>
     noFurtherFault (snd (dateNow w)) \<and> files (snd (dateNow w)) = files w
     \<and> processPid (snd (dateNow w)) = processPid w"
  by (cases "clock w") (auto simp: dateNow_def noFurtherFault_def)

lemma tempPath_startsWith: "startsWith (tempPath p n t) (p @ ''.tmp-'')"
  by (simp add: tempPath_def startsWith_def)

lemma tempPath_neq: "tempPath p n t \<noteq> p"
  by (simp add: tempPath_def)

lemma mkdirSync_quiet:
  assumes "noFurtherFault w"
  shows "\<exists>w'. mkdirSync d w = (None, w') \<and> noFurtherFault w'
           \<and> processPid w' = processPid w \<and> files w' = files w"
  using nextFault_quiet [OF assms] by (simp add: mkdirSync_def fsCall_quiet [OF assms])

lemma writeFileSync_quiet:
  assumes "noFurtherFault w"
  shows "\<exists>w' m0. writeFileSync p v w = (None, w') \<and> noFurtherFault w'
           \<and> processPid w' = processPid w
           \<and> files w' = (files w)(p \<mapsto> \<lparr>fileContent = v, fileMode = m0\<rparr>)"
  using nextFault_quiet [OF assms]
  by (simp add: writeFileSync_def fsCall_quiet [OF assms] noFurtherFault_def) blast

lemma chmodSync_quiet:
  assumes "noFurtherFault w" and "files w p = Some f"
  shows "\<exists>w'. chmodSync p m w = (None, w') \<and> noFurtherFault w'
           \<and> processPid w' = processPid w
           \<and> files w' = (files w)(p \<mapsto> f\<lparr>fileMode := m\<rparr>)"
  using nextFault_quiet [OF assms(1)] assms(2)
  by (simp add: chmodSync_def fsCall_quiet [OF assms(1)] noFurtherFault_def)

lemma renameSync_quiet:
  assumes "noFurtherFault w" and "files w a = Some f" and "a \<noteq> b"
  shows "\<exists>w'. renameSync a b w = (None, w') \<and> noFurtherFault w'
           \<and> processPid w' = processPid w
           \<and> files w' = ((files w)(b \<mapsto> f))(a := None)"
  using nextFault_quiet [OF assms(1)] assms(2,3)
  by (simp add: renameSync_def fsCall_quiet [OF assms(1)] noFurtherFault_def)

lemma writeTextFileAtomic_quiet:
  assumes "noFurtherFault w"
  shows "\<exists>w' t. writeTextFileAtomic p v m w = (None, w') \<and> noFurtherFault w'
           \<and> processPid w' = processPid w
           \<and> files w' = ((files w)(p \<mapsto> \<lparr>fileContent = v, fileMode = m\<rparr>))
                           (tempPath p (processPid w) t := None)"
proof -
  from mkdirSync_quiet [OF assms] obtain w1 where
    e: "ensureDirForFile p w = (None, w1)" and q1: "noFurtherFault w1"
    and p1: "processPid w1 = processPid w" and f1: "files w1 = files w"
    unfolding ensureDirForFile_def by blast
  obtain t w2 where d: "dateNow w1 = (t, w2)" by (cases "dateNow w1")
  from dateNow_quiet [OF q1] d
  have q2: "noFurtherFault w2" and f2: "files w2 = files w" and p2: "processPid w2 = processPid w"
    by (simp_all add: f1 p1)
  define tmp where "tmp = tempPath p (processPid w) t"
  have ne: "tmp \<noteq> p" unfolding tmp_def by (rule tempPath_neq)
  from writeFileSync_quiet [OF q2] obtain w3 m0 where
    wr: "writeFileSync tmp v w2 = (None, w3)" and q3: "noFurtherFault w3"
    and p3: "processPid w3 = processPid w"
    and f3: "files w3 = (files w)(tmp \<mapsto> \<lparr>fileContent = v, fileMode = m0\<rparr>)"
    unfolding p2 f2 by blast
  have g3: "files w3 tmp = Some \<lparr>fileContent = v, fileMode = m0\<rparr>" by (simp add: f3)
  from chmodSync_quiet [OF q3 g3] obtain w4 where
    ch: "chmodSync tmp m w3 = (None, w4)" and q4: "noFurtherFault w4"
    and p4: "processPid w4 = processPid w"
    and f4: "files w4 = (files w)(tmp \<mapsto> \<lparr>fileContent = v, fileMode = m\<rparr>)"
    unfolding p3 f3 by auto
  have g4: "files w4 tmp = Some \<lparr>fileContent = v, fileMode = m\<rparr>" by (simp add: f4)
  from renameSync_quiet [OF q4 g4 ne] obtain w5 where
    rn: "renameSync tmp p w4 = (None, w5)" and q5: "noFurtherFault w5"
    and p5: "processPid w5 = processPid w"
    and f5: "files w5 = ((files w4)(p \<mapsto> \<lparr>fileContent = v, fileMode = m\<rparr>))(tmp := None)"
    unfolding p4 by blast
  have run: "writeTextFileAtomic p v m w = (None, w5)"
    using wr ch rn by (simp add: writeTextFileAtomic_def e d p2 Let_def tmp_def)
  have fin: "files w5 = ((files w)(p \<mapsto> \<lparr>fileContent = v, fileMode = m\<rparr>))(tmp := None)"
    unfolding f5 f4 using ne by (auto simp: fun_eq_iff)
  from run q5 p5 fin show ?thesis unfolding tmp_def by blast
qed

lemma restoreFileSnapshot_quiet:
  assumes q: "noFurtherFault w" and s: "snapshotOf fs0 p s"
  shows "noFurtherFault (snd (restoreFileSnapshot p s w))
         \<and> processPid (snd (restoreFileSnapshot p s w)) = processPid w
         \<and> map_option fileContent (files (snd (restoreFileSnapshot p s w)) p)
             = map_option fileContent (fs0 p)
         \<and> (\<forall>x. x \<noteq> p \<longrightarrow> \<not> startsWith x (p @ ''.tmp-'')
               \<longrightarrow> files (snd (restoreFileSnapshot p s w)) x = files w x)"
proof (cases "existed s")
  case False
  with s have none: "fs0 p = None" by (auto simp: snapshotOf_def split: option.splits)
  show ?thesis
  proof (cases "existsSync p w")
    case True
    from nextFault_quiet [OF q] have "noFurtherFault (snd (nextFault w))"
      "files (snd (nextFault w)) = files w" "processPid (snd (nextFault w)) = processPid w"
      by simp_all
    then show ?thesis using False True none
      by (simp add: restoreFileSnapshot_def rmSync_def fsCall_quiet [OF q] noFurtherFault_def)
  next
    case no: False
    then show ?thesis using False none q
      by (simp add: restoreFileSnapshot_def existsSync_def)
  qed
next
  case True
  with s obtain f where f: "fs0 p = Some f" "snapshotContent s = fileContent f"
    by (auto simp: snapshotOf_def split: option.splits)
  let ?m = "if snapshotMode s = 0 then 384 else snapshotMode s"
  from writeTextFileAtomic_quiet [OF q, of p "snapshotContent s" ?m]
  obtain w' t where w': "writeTextFileAtomic p (snapshotContent s) ?m w = (None, w')"
    "noFurtherFault w'" "processPid w' = processPid w"
    "files w' = ((files w)(p \<mapsto> \<lparr>fileContent = snapshotContent s, fileMode = ?m\<rparr>))
                           (tempPath p (processPid w) t := None)"
    by blast
  have r: "restoreFileSnapshot p s w = (None, w')"
    using True w'(1) by (simp add: restoreFileSnapshot_def)
  have a: "map_option fileContent (files w' p) = map_option fileContent (fs0 p)"
    using tempPath_neq [of p "processPid w" t] by (simp add: w'(4) f)
  have b: "\<forall>x. x \<noteq> p \<longrightarrow> \<not> startsWith x (p @ ''.tmp-'') \<longrightarrow> files w' x = files w x"
    using tempPath_startsWith [of p "processPid w" t] by (auto simp: w'(4))
  from w'(2,3) a b show ?thesis by (simp add: r)
qed

lemma restoreAll_quiet:
  "noFurtherFault w \<Longrightarrow> \<forall>(p, s) \<in> set snaps. snapshotOf fs0 p s \<Longrightarrow>
   \<forall>p \<in> fst ` set snaps. \<not> startsWith x (p @ ''.tmp-'') \<Longrightarrow>
     (if x \<in> fst ` set snaps
      then map_option fileContent (files (restoreAll snaps w) x) = map_option fileContent (fs0 x)
      else files (restoreAll snaps w) x = files w x)"
proof (induction snaps arbitrary: w)
  case Nil
  then show ?case by simp
next
  case (Cons ps snaps)
  obtain p s where ps: "ps = (p, s)" by (cases ps)
  let ?w' = "snd (restoreFileSnapshot p s w)"
  from Cons.prems(2) ps have s: "snapshotOf fs0 p s" by simp
  from restoreFileSnapshot_quiet [OF Cons.prems(1) s]
  have q': "noFurtherFault ?w'"
    and a: "map_option fileContent (files ?w' p) = map_option fileContent (fs0 p)"
    and b: "\<forall>x. x \<noteq> p \<longrightarrow> \<not> startsWith x (p @ ''.tmp-'') \<longrightarrow> files ?w' x = files w x"
    by simp_all
  from Cons.prems(2) have rest: "\<forall>(p, s) \<in> set snaps. snapshotOf fs0 p s" by simp
  from Cons.prems(3) have clash: "\<forall>p \<in> fst ` set snaps. \<not> startsWith x (p @ ''.tmp-'')"
    and xp: "\<not> startsWith x (p @ ''.tmp-'')" by (simp_all add: ps)
  from Cons.IH [OF q' rest clash]
  have ih: "if x \<in> fst ` set snaps
      then map_option fileContent (files (restoreAll snaps ?w') x) = map_option fileContent (fs0 x)
      else files (restoreAll snaps ?w') x = files ?w' x" .
  show ?case
  proof (cases "x \<in> fst ` set snaps")
    case True
    with ih show ?thesis by (simp add: ps)
  next
    case False
    with ih have e: "files (restoreAll snaps ?w') x = files ?w' x" by simp
    show ?thesis
    proof (cases "x = p")
      case True
      with e a show ?thesis by (simp add: ps)
    next
      case ne: False
      with b xp have "files ?w' x = files w x" by simp
      with e ne False show ?thesis by (simp add: ps)
    qed
  qed
qed

lemma statSyncMode_files: "files (snd (statSyncMode p w)) = files w"
  using nextFault_files [of w]
  by (cases "nextFault w") (auto simp: statSyncMode_def split: option.splits)

lemma readFileSync_result:
  "readFileSync p w = (Inr body, w') \<Longrightarrow>
     files w' = files w \<and> (\<exists>f. files w p = Some f \<and> body = fileContent f)"
  using nextFault_files [of w]
  by (cases "nextFault w") (auto simp: readFileSync_def split: option.splits)

lemma captureFileSnapshot_result:
  assumes "captureFileSnapshot p w = (Inr s, w')"
  shows "files w' = files w \<and> snapshotOf (files w) p s"
proof (cases "existsSync p w")
  case False
  with assms show ?thesis
    by (auto simp: captureFileSnapshot_def existsSync_def snapshotOf_def)
next
  case True
  obtain r1 w1 where st: "statSyncMode p w = (r1, w1)" by (cases "statSyncMode p w")
  with statSyncMode_files [of p w] have f1: "files w1 = files w" by simp
  from assms True st obtain m where m: "r1 = Inr m"
    by (cases r1) (auto simp: captureFileSnapshot_def)
  obtain r2 w2 where rd: "readFileSync p w1 = (r2, w2)" by (cases "readFileSync p w1")
  from assms True st m rd obtain body where t: "r2 = Inr body"
    by (cases r2) (auto simp: captureFileSnapshot_def)
  from assms True st m rd t have w': "w' = w2"
    and s: "s = \<lparr>existed = True, snapshotContent = body, snapshotMode = m mod 512\<rparr>"
    by (auto simp: captureFileSnapshot_def)
  from readFileSync_result [OF rd [unfolded t]] f1
  obtain f where "files w2 = files w" "files w p = Some f" "body = fileContent f" by auto
  then show ?thesis by (simp add: w' s snapshotOf_def)
qed

lemma captureAll_result:
  "captureAll ps snaps w = (Inr snaps', w') \<Longrightarrow>
   \<forall>(p, s) \<in> set snaps. snapshotOf (files w) p s \<Longrightarrow>
     files w' = files w \<and> (\<forall>(p, s) \<in> set snaps'. snapshotOf (files w) p s)
     \<and> fst ` set snaps' = fst ` set snaps \<union> set ps"
proof (induction ps arbitrary: snaps w)
  case Nil
  then show ?case by auto
next
  case (Cons p ps)
  show ?case
  proof (cases "map_of snaps p \<noteq> None")
    case True
    then obtain y where "map_of snaps p = Some y" by auto
    then have "(p, y) \<in> set snaps" by (rule map_of_SomeD)
    then have mem: "p \<in> fst ` set snaps" by force
    from Cons.prems(1) True have "captureAll ps snaps w = (Inr snaps', w')" by simp
    from Cons.IH [OF this Cons.prems(2)] mem show ?thesis by auto
  next
    case False
    obtain r w1 where c: "captureFileSnapshot p w = (r, w1)" by (cases "captureFileSnapshot p w")
    from Cons.prems(1) False c obtain s where r: "r = Inr s" by (cases r) auto
    from Cons.prems(1) False c r have rec: "captureAll ps (snaps @ [(p, s)]) w1 = (Inr snaps', w')"
      by simp
    from captureFileSnapshot_result [OF c [unfolded r]]
    have f1: "files w1 = files w" and sp: "snapshotOf (files w) p s" by simp_all
    from Cons.prems(2) sp have "\<forall>(p, s) \<in> set (snaps @ [(p, s)]). snapshotOf (files w1) p s"
      by (auto simp: f1)
    from Cons.IH [OF rec this] show ?thesis by (auto simp: f1)
  qed
qed

text \<open>The example: the write of the env file fails.\<close>

lemma example_changed: "toSorted (changedFiles exampleProjected) \<noteq> []"
  by (simp add: toSorted_def exampleProjected_def)

lemma example_paths:
  "snapshotPaths exampleProjected
     = [''/home/u/.openclaw/openclaw.json'', ''/home/u/.openclaw/agents/main/auth-profiles.json'',
        ''/home/u/.openclaw/.env'']"
  by (simp add: snapshotPaths_def exampleProjected_def)

lemma example_capture:
  "captureAll (snapshotPaths exampleProjected) [] exampleWorld
     = (Inr exampleSnapshots,
        exampleWorld\<lparr>faults := [None, None, None, None, None, None,
                 Some (Thrown ''Error: ENOSPC: no space left on device, write'')]\<rparr>)"
  by (simp add: example_paths exampleWorld_def exampleFiles_def exampleSnapshots_def
      captureFileSnapshot_def existsSync_def statSyncMode_def readFileSync_def nextFault_def)

lemma example_commit:
  "fst (commitWrites exampleWriteConfigFile exampleStringify exampleProjected
          (exampleWorld\<lparr>faults := [None, None, None, None, None, None,
                 Some (Thrown ''Error: ENOSPC: no space left on device, write'')]\<rparr>))
     = Some (Thrown ''Error: ENOSPC: no space left on device, write'')
   \<and> noFurtherFault (snd (commitWrites exampleWriteConfigFile exampleStringify exampleProjected
          (exampleWorld\<lparr>faults := [None, None, None, None, None, None,
                 Some (Thrown ''Error: ENOSPC: no space left on device, write'')]\<rparr>)))"
  by (simp add: commitWrites_def exampleWriteConfigFile_def exampleProjected_def applyWrites_def
      toJsonWrite_def exampleStringify_def writeTextFileAtomic_def ensureDirForFile_def
      mkdirSync_def writeFileSync_def chmodSync_def renameSync_def fsCall_def nextFault_def
      dateNow_def exampleWorld_def tempPath_def noFurtherFault_def Let_def)

lemma example_no_clash: "noTempClash (snapshotPaths exampleProjected)"
  by (simp add: example_paths noTempClash_def startsWith_def)


text \<open>
  Claim C1. Without the write flag \<open>runSecretsApply\<close> leaves every file as it is. With
  it, when a write of the commit step throws \<open>err\<close> (the writer of the configuration or
  one of the atomic writes), the call throws \<open>Secrets apply failed\<close> with \<open>err\<close> as its
  cause, after it has run \<open>restoreFileSnapshot\<close> on every snapshot, whatever a restore
  throws; the snapshots are those of the main configuration, the auth-profile stores, the
  legacy auth stores and the env files. When no call fails during the restores, every one
  of these files has its text of before the apply again, and one that did not exist is
  gone; this needs that none of the paths is the name of a temporary file of another.
\<close>

theorem apply_rollback_and_dry_run:
  "files (snd (runSecretsApply writeConfigFile stringify projectPlanState False w)) = files w
   \<and> (projectPlanState w = Inr projected \<longrightarrow> toSorted (changedFiles projected) \<noteq> [] \<longrightarrow>
      captureAll (snapshotPaths projected) [] w = (Inr snapshots, wa) \<longrightarrow>
      commitWrites writeConfigFile stringify projected wa = (Some err, wb) \<longrightarrow>
        runSecretsApply writeConfigFile stringify projectPlanState True w
          = (Inl (SecretsApplyFailed (''Secrets apply failed: '' @ thrownText err) err),
             restoreAll snapshots wb)
        \<and> fst ` set snapshots = set (snapshotPaths projected)
        \<and> (noFurtherFault wb \<longrightarrow> noTempClash (snapshotPaths projected) \<longrightarrow>
             (\<forall>p \<in> set (snapshotPaths projected).
                map_option fileContent (files (restoreAll snapshots wb) p)
                  = map_option fileContent (files w p))))"
proof (intro conjI impI)
  show "files (snd (runSecretsApply writeConfigFile stringify projectPlanState False w)) = files w"
    by (simp add: runSecretsApply_def Let_def split: sum.splits)
next
  assume pr: "projectPlanState w = Inr projected"
    and ch: "toSorted (changedFiles projected) \<noteq> []"
    and ca: "captureAll (snapshotPaths projected) [] w = (Inr snapshots, wa)"
    and co: "commitWrites writeConfigFile stringify projected wa = (Some err, wb)"
  show "runSecretsApply writeConfigFile stringify projectPlanState True w
          = (Inl (SecretsApplyFailed (''Secrets apply failed: '' @ thrownText err) err),
             restoreAll snapshots wb)"
    using ch by (simp add: runSecretsApply_def Let_def pr ca co)
  from captureAll_result [OF ca]
  have sn: "\<forall>(p, s) \<in> set snapshots. snapshotOf (files w) p s"
    and dom: "fst ` set snapshots = set (snapshotPaths projected)" by simp_all
  show "fst ` set snapshots = set (snapshotPaths projected)" by (rule dom)
  assume q: "noFurtherFault wb" and cl: "noTempClash (snapshotPaths projected)"
  show "\<forall>p \<in> set (snapshotPaths projected).
          map_option fileContent (files (restoreAll snapshots wb) p)
            = map_option fileContent (files w p)"
  proof
    fix x assume x: "x \<in> set (snapshotPaths projected)"
    from cl x have "\<forall>p \<in> fst ` set snapshots. \<not> startsWith x (p @ ''.tmp-'')"
      unfolding dom noTempClash_def list_all_iff by blast
    from restoreAll_quiet [OF q sn this] x dom
    show "map_option fileContent (files (restoreAll snapshots wb) x)
            = map_option fileContent (files w x)" by simp
  qed
qed

theorem apply_rollback_and_dry_run_witness:
  "fst (runSecretsApply exampleWriteConfigFile exampleStringify (\<lambda>w. Inr exampleProjected) True
          exampleWorld)
     = Inl (SecretsApplyFailed
              ''Secrets apply failed: Error: ENOSPC: no space left on device, write''
              (Thrown ''Error: ENOSPC: no space left on device, write''))
   \<and> map_option fileContent
         (files (snd (runSecretsApply exampleWriteConfigFile exampleStringify
                        (\<lambda>w. Inr exampleProjected) True exampleWorld))
            ''/home/u/.openclaw/openclaw.json'') = Some ''{old}''
   \<and> files (snd (runSecretsApply exampleWriteConfigFile exampleStringify
                     (\<lambda>w. Inr exampleProjected) True exampleWorld))
         ''/home/u/.openclaw/agents/main/auth-profiles.json'' = None
   \<and> map_option fileContent
         (files (snd (runSecretsApply exampleWriteConfigFile exampleStringify
                        (\<lambda>w. Inr exampleProjected) True exampleWorld))
            ''/home/u/.openclaw/.env'') = Some ''A=1''
   \<and> files (snd (runSecretsApply exampleWriteConfigFile exampleStringify
                     (\<lambda>w. Inr exampleProjected) False exampleWorld)) = exampleFiles"
proof -
  let ?w1 = "exampleWorld\<lparr>faults := [None, None, None, None, None, None,
                 Some (Thrown ''Error: ENOSPC: no space left on device, write'')]\<rparr>"
  let ?w2 = "snd (commitWrites exampleWriteConfigFile exampleStringify exampleProjected ?w1)"
  let ?err = "Thrown ''Error: ENOSPC: no space left on device, write''"
  have pr: "(\<lambda>w. Inr exampleProjected) exampleWorld = Inr exampleProjected" by simp
  have co: "commitWrites exampleWriteConfigFile exampleStringify exampleProjected ?w1
              = (Some ?err, ?w2)"
    using example_commit by (simp add: prod_eq_iff)
  have q: "noFurtherFault ?w2" using example_commit by simp
  note all = apply_rollback_and_dry_run
         [where writeConfigFile = exampleWriteConfigFile and stringify = exampleStringify
            and projectPlanState = "\<lambda>w. Inr exampleProjected" and w = exampleWorld
            and projected = exampleProjected and snapshots = exampleSnapshots
            and wa = ?w1 and wb = ?w2 and err = ?err]
  from all have dry: "files (snd (runSecretsApply exampleWriteConfigFile exampleStringify
                     (\<lambda>w. Inr exampleProjected) False exampleWorld)) = files exampleWorld"
    by (rule conjunct1)
  from all [THEN conjunct2, rule_format, OF pr example_changed example_capture co]
  have run: "runSecretsApply exampleWriteConfigFile exampleStringify
               (\<lambda>w. Inr exampleProjected) True exampleWorld
          = (Inl (SecretsApplyFailed (''Secrets apply failed: '' @ thrownText ?err) ?err),
             restoreAll exampleSnapshots ?w2)"
    and restored: "noFurtherFault ?w2 \<longrightarrow> noTempClash (snapshotPaths exampleProjected) \<longrightarrow>
             (\<forall>p \<in> set (snapshotPaths exampleProjected).
                map_option fileContent (files (restoreAll exampleSnapshots ?w2) p)
                  = map_option fileContent (files exampleWorld p))"
    by simp_all
  from restored q example_no_clash
  have "\<forall>p \<in> set (snapshotPaths exampleProjected).
                map_option fileContent (files (restoreAll exampleSnapshots ?w2) p)
                  = map_option fileContent (files exampleWorld p)" by simp
  then have
    "map_option fileContent (files (restoreAll exampleSnapshots ?w2)
        ''/home/u/.openclaw/openclaw.json'') = Some ''{old}''"
    "map_option fileContent (files (restoreAll exampleSnapshots ?w2)
        ''/home/u/.openclaw/agents/main/auth-profiles.json'') = None"
    "map_option fileContent (files (restoreAll exampleSnapshots ?w2)
        ''/home/u/.openclaw/.env'') = Some ''A=1''"
    by (simp_all add: example_paths exampleWorld_def exampleFiles_def)
  with dry show ?thesis unfolding run by (simp add: exampleWorld_def)
qed


end
